theory Spec2Isabelle
  imports Complex_Main "HOL-Library.Sublist"
begin

section \<open>Values\<close>

text \<open>
  A JavaScript number is an IEEE double: every finite double is a rational, and three
  values are not finite. Negative zero is identified with zero. The arithmetic of
  doubles (rounding) is not modelled: it is the field \<open>num_op\<close> of the environment below.
\<close>

datatype jsnum = Finite rat | NaN | PosInfinity | NegInfinity

text \<open>\<^verbatim>\<open>Number.isInteger\<close>.\<close>

definition number_isInteger :: "jsnum \<Rightarrow> bool" where
  "number_isInteger n = (case n of Finite q \<Rightarrow> q \<in> \<int> | _ \<Rightarrow> False)"

text \<open>
  The values the extractor handles (\<^verbatim>\<open>unknown\<close> in the source): \<^verbatim>\<open>EnumLiteral\<close> is the
  part \<open>VStr\<close>, \<open>VNum\<close>, \<open>VBool\<close>.
\<close>

datatype jsval =
    VUndefined
  | VNull
  | VBool bool
  | VNum jsnum
  | VStr string
  | VArr "jsval list"
  | VObj "(string \<times> jsval) list"

definition isString :: "jsval \<Rightarrow> bool" where
  "isString v = (case v of VStr _ \<Rightarrow> True | _ \<Rightarrow> False)"

definition isNumber :: "jsval \<Rightarrow> bool" where
  "isNumber v = (case v of VNum _ \<Rightarrow> True | _ \<Rightarrow> False)"

definition isBoolean :: "jsval \<Rightarrow> bool" where
  "isBoolean v = (case v of VBool _ \<Rightarrow> True | _ \<Rightarrow> False)"

definition isArray :: "jsval \<Rightarrow> bool" where
  "isArray v = (case v of VArr _ \<Rightarrow> True | _ \<Rightarrow> False)"

definition isObject :: "jsval \<Rightarrow> bool" where
  "isObject v = (case v of VObj _ \<Rightarrow> True | _ \<Rightarrow> False)"

definition isPrimitive :: "jsval \<Rightarrow> bool" where
  "isPrimitive v = (isString v \<or> isNumber v \<or> isBoolean v)"

text \<open>\<^verbatim>\<open>Result\<close> of true-myth.\<close>

datatype ('a, 'e) result = Ok 'a | Err 'e

definition isOk :: "('a, 'e) result \<Rightarrow> bool" where
  "isOk r = (case r of Ok _ \<Rightarrow> True | Err _ \<Rightarrow> False)"

section \<open>Syntax trees\<close>

text \<open>
  The nodes of ts-morph the extractor looks at, one constructor per \<^verbatim>\<open>SyntaxKind\<close> it
  tests; \<open>OtherNode k\<close> is a node of any other kind, \<open>k\<close> its numeric \<^verbatim>\<open>SyntaxKind\<close>.
  An \<open>AsExpression\<close> carries the text of its type node. A property name is an
  identifier, a string literal (its literal value) or something else (its text).
\<close>

datatype optoken =
    BarToken | AmpersandToken | CaretToken
  | LessThanLessThanToken | GreaterThanGreaterThanToken
  | GreaterThanGreaterThanGreaterThanToken
  | PlusToken | MinusToken | AsteriskToken | SlashToken | PercentToken
  | EqualsEqualsEqualsToken
  | OtherToken string

datatype propname = IdentifierName string | StringLiteralName string | OtherName string

datatype node =
    StringLiteral string
  | NumericLiteral jsnum
  | NoSubstitutionTemplateLiteral string
  | TrueKeyword
  | FalseKeyword
  | BigIntLiteral string
  | NullKeyword
  | UndefinedKeyword
  | TemplateExpression
  | Identifier string
  | AsExpression node string
  | TypeAssertionExpression node
  | ParenthesizedExpression node
  | PropertyAccessExpression node string
  | ElementAccessExpression node node
  | BinaryExpression node optoken node
  | ArrayLiteralExpression "node list"
  | ObjectLiteralExpression "member list"
  | SpreadElement node
  | CallExpression node "node list"
  | ArrowFunction node
  | OtherNode nat
and member =
    PropertyAssignment propname node
  | ShorthandPropertyAssignment string
  | SpreadAssignment node
  | MethodDeclaration propname
  | GetAccessor propname
  | SetAccessor propname

text \<open>
  Declarations a symbol can point to. \<open>EnumMember v i\<close>: \<^verbatim>\<open>getValue()\<close> is \<open>v\<close> (a number,
  a string or undefined) and the initializer is \<open>i\<close>. \<open>InitializableDecl\<close> is any other
  declaration that has \<^verbatim>\<open>getInitializer\<close> (a parameter, a property), \<open>OtherDecl\<close> one that
  has not (a function, a class).
\<close>

datatype decl =
    VariableDeclaration "node option"
  | EnumMember jsval "node option"
  | ArrowFunctionDecl node
  | InitializableDecl "node option"
  | OtherDecl

text \<open>
  \<^verbatim>\<open>getAliasedSymbol()\<close> throws on a symbol that is no alias; on an alias it gives a symbol,
  of which the code reads the value declaration only.
\<close>

datatype aliasing = NotAlias | Alias "decl option"

datatype symbol = Symbol (valueDeclaration: "decl option") (aliased: aliasing)

text \<open>The type of a type node, as \<^verbatim>\<open>inferTypeFromTypeScriptType\<close> reads it.\<close>

record tstype =
  typeName :: string
  unionTypes :: "string list"

text \<open>
  What the program under analysis and the libraries supply. Identifiers and accesses are
  resolved by the node alone, so a name stands for one entity wherever the extractor
  meets it. \<open>symbol_at n\<close> is \<^verbatim>\<open>n.getSymbol() ?? checker.getSymbolAtLocation(n)\<close> (ts-morph's
  \<^verbatim>\<open>getSymbol\<close> asks the same checker); \<open>file_var x\<close> is the initializer of
  \<^verbatim>\<open>getSourceFile().getVariableDeclaration(x)\<close>; \<open>text_of n\<close> is \<^verbatim>\<open>n.getText()\<close> of a node
  that is no identifier. \<open>optionTypeMap\<close> (a record whose keys are finite numbers),
  \<open>string_array_type\<close> (the test of \<^verbatim>\<open>STRING_ARRAY_TYPE_PATTERN\<close>) and \<open>get_function_name\<close> are
  constants of files that are not part of the sources at hand; \<open>parse_int n\<close> is
  \<^verbatim>\<open>parseInt(n.toString(), PARSE_INT_RADIX)\<close>, \<open>number_text n\<close> is \<^verbatim>\<open>String(n)\<close>, and
  \<open>zod_accepts_infinity\<close> says whether \<^verbatim>\<open>z.number()\<close> accepts an infinite number, which
  depends on the version of zod.
\<close>

record env =
  symbol_at :: "node \<Rightarrow> symbol option"
  file_var :: "string \<Rightarrow> node option"
  text_of :: "node \<Rightarrow> string"
  type_at :: "node \<Rightarrow> tstype option"
  num_op :: "optoken \<Rightarrow> jsnum \<Rightarrow> jsnum \<Rightarrow> jsnum"
  parse_int :: "jsnum \<Rightarrow> jsnum"
  number_text :: "jsnum \<Rightarrow> string"
  optionTypeMap :: "rat \<Rightarrow> string option"
  zod_accepts_infinity :: bool
  string_array_type :: "string \<Rightarrow> bool"
  get_function_name :: string

definition getText :: "env \<Rightarrow> node \<Rightarrow> string" where
  "getText env n = (case n of Identifier x \<Rightarrow> x | _ \<Rightarrow> text_of env n)"

definition dquote :: char where
  "dquote = CHR 0x22"

definition squote :: char where
  "squote = CHR 0x27"

text \<open>
  \<^verbatim>\<open>getNameNode().getText()\<close>, which is also \<^verbatim>\<open>getName()\<close>. A name written as a string
  literal keeps the quotes of the source; the model writes them as double quotes, so the
  name of a single-quoted key is spelled with other quotes than in the source.
\<close>

definition propname_text :: "propname \<Rightarrow> string" where
  "propname_text pn =
     (case pn of IdentifierName s \<Rightarrow> s
      | StringLiteralName s \<Rightarrow> dquote # s @ [dquote]
      | OtherName t \<Rightarrow> t)"

text \<open>\<^verbatim>\<open>.replace(/['"]/g, '')\<close>.\<close>

definition stripQuotes :: "string \<Rightarrow> string" where
  "stripQuotes s = filter (\<lambda>c. c \<noteq> dquote \<and> c \<noteq> squote) s"

definition member_name :: "member \<Rightarrow> string option" where
  "member_name m =
     (case m of PropertyAssignment pn _ \<Rightarrow> Some (propname_text pn)
      | ShorthandPropertyAssignment s \<Rightarrow> Some s
      | SpreadAssignment _ \<Rightarrow> None
      | MethodDeclaration pn \<Rightarrow> Some (propname_text pn)
      | GetAccessor pn \<Rightarrow> Some (propname_text pn)
      | SetAccessor pn \<Rightarrow> Some (propname_text pn))"

text \<open>\<^verbatim>\<open>ObjectLiteralExpression.getProperty(name)\<close>: the first member whose name is \<open>name\<close>.\<close>

definition getProperty :: "member list \<Rightarrow> string \<Rightarrow> member option" where
  "getProperty ms name = find (\<lambda>m. member_name m = Some name) ms"

section \<open>The evaluator (foundation.ts)\<close>

datatype eval_error =
    ExpectedLiteral
  | CannotUnwrapNode
  | CannotResolveIdentifier
  | ExpectedPropertyAccess
  | CannotResolvePropertyAccess
  | ExpectedBinaryExpression
  | OperandsMustBeNumbers
  | UnsupportedBinaryOperator
  | CannotEvaluateNode
  | MissingValueProperty
  | ValueHasNoInitializer
  | SpreadMustBeIdentifier
  | CannotResolveSpread
  | SpreadNotArrayLiteral

type_synonym EvaluationResult = "(jsval, eval_error) result"

definition isLiteralKind :: "node \<Rightarrow> bool" where
  "isLiteralKind n =
     (case n of StringLiteral _ \<Rightarrow> True | NumericLiteral _ \<Rightarrow> True
      | NoSubstitutionTemplateLiteral _ \<Rightarrow> True | TrueKeyword \<Rightarrow> True | FalseKeyword \<Rightarrow> True
      | _ \<Rightarrow> False)"

definition isCollectionKind :: "node \<Rightarrow> bool" where
  "isCollectionKind n =
     (case n of ArrayLiteralExpression _ \<Rightarrow> True | ObjectLiteralExpression _ \<Rightarrow> True
      | _ \<Rightarrow> False)"

fun unwrapNode :: "node \<Rightarrow> node" where
  "unwrapNode (AsExpression e t) = unwrapNode e"
| "unwrapNode (TypeAssertionExpression e) = unwrapNode e"
| "unwrapNode (ParenthesizedExpression e) = unwrapNode e"
| "unwrapNode n = n"

definition isWrappedNode :: "node \<Rightarrow> bool" where
  "isWrappedNode n =
     (case n of AsExpression _ _ \<Rightarrow> True | TypeAssertionExpression _ \<Rightarrow> True
      | ParenthesizedExpression _ \<Rightarrow> True | _ \<Rightarrow> False)"

definition getArrowFunctionBody :: "node \<Rightarrow> node option" where
  "getArrowFunctionBody n = (case n of ArrowFunction body \<Rightarrow> Some (unwrapNode body) | _ \<Rightarrow> None)"

definition evaluateLiteral :: "node \<Rightarrow> EvaluationResult" where
  "evaluateLiteral n =
     (case unwrapNode n of
        StringLiteral s \<Rightarrow> Ok (VStr s)
      | NumericLiteral x \<Rightarrow> Ok (VNum x)
      | NoSubstitutionTemplateLiteral s \<Rightarrow> Ok (VStr s)
      | TrueKeyword \<Rightarrow> Ok (VBool True)
      | FalseKeyword \<Rightarrow> Ok (VBool False)
      | _ \<Rightarrow> Err ExpectedLiteral)"

definition isLiteralNode :: "node \<Rightarrow> bool" where
  "isLiteralNode n = isLiteralKind (unwrapNode n)"

definition symbolDeclaration :: "env \<Rightarrow> node \<Rightarrow> decl option" where
  "symbolDeclaration env n =
     (case symbol_at env n of None \<Rightarrow> None | Some s \<Rightarrow> valueDeclaration s)"

text \<open>\<^verbatim>\<open>'getInitializer' in decl ? decl.getInitializer() : undefined\<close>.\<close>

definition declInitializer :: "decl \<Rightarrow> node option" where
  "declInitializer d =
     (case d of VariableDeclaration i \<Rightarrow> i | EnumMember _ i \<Rightarrow> i
      | InitializableDecl i \<Rightarrow> i | _ \<Rightarrow> None)"

definition resolveIdentifier :: "env \<Rightarrow> node \<Rightarrow> node option" where
  "resolveIdentifier env identifier =
     (case symbolDeclaration env identifier of
        Some (VariableDeclaration init) \<Rightarrow> map_option unwrapNode init
      | _ \<Rightarrow> None)"

definition resolveIdentifierNode :: "env \<Rightarrow> node \<Rightarrow> node" where
  "resolveIdentifierNode env n =
     (case n of
        Identifier _ \<Rightarrow> (case resolveIdentifier env n of Some r \<Rightarrow> r | None \<Rightarrow> n)
      | _ \<Rightarrow> n)"

definition resolveIdentifierWithFallback :: "env \<Rightarrow> node \<Rightarrow> node option" where
  "resolveIdentifierWithFallback env n =
     (case n of
        Identifier x \<Rightarrow>
          (case resolveIdentifier env n of
             Some r \<Rightarrow> Some r
           | None \<Rightarrow> map_option unwrapNode (file_var env x))
      | _ \<Rightarrow> None)"

definition EXTERNAL_ENUMS :: "(string \<times> (string \<times> jsnum) list) list" where
  "EXTERNAL_ENUMS =
     [(''ActivityType'',
         [(''PLAYING'', Finite 0), (''STREAMING'', Finite 1), (''LISTENING'', Finite 2),
          (''WATCHING'', Finite 3), (''CUSTOM'', Finite 4), (''COMPETING'', Finite 5)]),
      (''StatusType'',
         [(''ONLINE'', Finite 0), (''IDLE'', Finite 1), (''DND'', Finite 2),
          (''INVISIBLE'', Finite 3)]),
      (''ChannelType'',
         [(''GUILD_TEXT'', Finite 0), (''DM'', Finite 1), (''GUILD_VOICE'', Finite 2)])]"

text \<open>
  \<^verbatim>\<open>EXTERNAL_ENUMS[enumName]?.[member]\<close>, on the entries of the table itself: members that
  JavaScript inherits from \<^verbatim>\<open>Object.prototype\<close> are outside the model.
\<close>

definition getExternalEnumValue :: "string \<Rightarrow> string \<Rightarrow> jsnum option" where
  "getExternalEnumValue enumName mem =
     (case map_of EXTERNAL_ENUMS enumName of None \<Rightarrow> None | Some e \<Rightarrow> map_of e mem)"

text \<open>
  The initializer of the property assignment \<open>name\<close> of an object literal: the lines
  \<^verbatim>\<open>obj.getProperty(name)\<close>, \<^verbatim>\<open>targetProp?.getKind() === PropertyAssignment\<close>,
  \<^verbatim>\<open>getInitializer()\<close> of \<^verbatim>\<open>evaluatePropertyAccess\<close>, after one \<^verbatim>\<open>as\<close> wrapper is removed.
\<close>

definition stripOneAs :: "node \<Rightarrow> node" where
  "stripOneAs n = (case n of AsExpression e _ \<Rightarrow> e | _ \<Rightarrow> n)"

definition objectPropertyInit :: "node option \<Rightarrow> string \<Rightarrow> node option" where
  "objectPropertyInit init name =
     (case map_option stripOneAs init of
        Some (ObjectLiteralExpression ms) \<Rightarrow>
          (case getProperty ms name of
             Some (PropertyAssignment _ i) \<Rightarrow> Some i
           | _ \<Rightarrow> None)
      | _ \<Rightarrow> None)"

definition externalEnumResult :: "env \<Rightarrow> node \<Rightarrow> string \<Rightarrow> EvaluationResult" where
  "externalEnumResult env baseExpr name =
     (case getExternalEnumValue (getText env baseExpr) name of
        Some v \<Rightarrow> Ok (VNum v)
      | None \<Rightarrow> Err CannotResolvePropertyAccess)"

text \<open>
  A function that calls the evaluator returns an option: \<open>None\<close> when the JavaScript does
  not return (the recursion through declarations that refer to each other exhausts the
  stack, or an \<^verbatim>\<open>asKindOrThrow\<close> throws).

  \<^verbatim>\<open>evaluatePropertyAccess\<close> either returns a result of its own or returns what the
  callback gives on one initializer. \<open>propertyAccessStep\<close> is the function up to that
  point, in the order of the source: the enum member, the object literal of the base
  identifier's declaration, the variable of the source file when the base has no
  initializer, the table of external enums.
\<close>

datatype pa_step = Return EvaluationResult | Evaluate node

definition propertyAccessStep :: "env \<Rightarrow> node \<Rightarrow> pa_step" where
  "propertyAccessStep env n =
     (case n of
        PropertyAccessExpression baseExpr name \<Rightarrow>
          (case symbolDeclaration env n of
             Some (EnumMember (VNum x) _) \<Rightarrow> Return (Ok (VNum x))
           | Some (EnumMember (VStr s) _) \<Rightarrow> Return (Ok (VStr s))
           | Some (EnumMember _ (Some init)) \<Rightarrow> Evaluate init
           | _ \<Rightarrow>
              (case baseExpr of
                 Identifier b \<Rightarrow>
                   (let baseSym = symbol_at env baseExpr;
                        baseDecl =
                          (case baseSym of None \<Rightarrow> None
                           | Some s \<Rightarrow>
                               (case valueDeclaration s of Some d \<Rightarrow> Some d
                                | None \<Rightarrow> (case aliased s of Alias d \<Rightarrow> d | NotAlias \<Rightarrow> None)));
                        baseInit = (case baseDecl of None \<Rightarrow> None | Some d \<Rightarrow> declInitializer d)
                    in case objectPropertyInit baseInit name of
                         Some init \<Rightarrow> Evaluate init
                       | None \<Rightarrow>
                           (if baseInit = None then
                              (case objectPropertyInit (file_var env b) name of
                                 Some init \<Rightarrow> Evaluate init
                               | None \<Rightarrow> Return (externalEnumResult env baseExpr name))
                            else Return (externalEnumResult env baseExpr name)))
               | _ \<Rightarrow> Return (externalEnumResult env baseExpr name)))
      | _ \<Rightarrow> Return (Err ExpectedPropertyAccess))"

definition evaluatePropertyAccess ::
  "env \<Rightarrow> node \<Rightarrow> (node \<Rightarrow> EvaluationResult option) \<Rightarrow> EvaluationResult option" where
  "evaluatePropertyAccess env n evaluateValue =
     (case propertyAccessStep env n of
        Return r \<Rightarrow> Some r
      | Evaluate init \<Rightarrow> evaluateValue init)"

definition BINARY_OPERATORS :: "optoken list" where
  "BINARY_OPERATORS =
     [BarToken, AmpersandToken, CaretToken, LessThanLessThanToken,
      GreaterThanGreaterThanToken, GreaterThanGreaterThanGreaterThanToken,
      PlusToken, MinusToken, AsteriskToken, SlashToken, PercentToken]"

definition evaluateBinaryExpression ::
  "env \<Rightarrow> node \<Rightarrow> (node \<Rightarrow> EvaluationResult option) \<Rightarrow> EvaluationResult option" where
  "evaluateBinaryExpression env n evaluateOperand =
     (case n of
        BinaryExpression l opr r \<Rightarrow>
          Option.bind (evaluateOperand l) (\<lambda>leftResult.
          Option.bind (evaluateOperand r) (\<lambda>rightResult.
            Some (case leftResult of
                    Err e \<Rightarrow> Err e
                  | Ok left \<Rightarrow>
                     (case rightResult of
                        Err e \<Rightarrow> Err e
                      | Ok right \<Rightarrow>
                         (case (left, right) of
                            (VNum a, VNum b) \<Rightarrow>
                              (if opr \<in> set BINARY_OPERATORS then Ok (VNum (num_op env opr a b))
                               else Err UnsupportedBinaryOperator)
                          | _ \<Rightarrow> Err OperandsMustBeNumbers)))))
      | _ \<Rightarrow> Some (Err ExpectedBinaryExpression))"

definition isSupportedBinaryExpression :: "node \<Rightarrow> bool" where
  "isSupportedBinaryExpression n =
     (case n of BinaryExpression _ opr _ \<Rightarrow> opr \<in> set BINARY_OPERATORS | _ \<Rightarrow> False)"

lemma evaluatePropertyAccess_mono [partial_function_mono]:
  assumes "\<And>x. mono_option (\<lambda>f. g f x)"
  shows "mono_option (\<lambda>f. evaluatePropertyAccess env n (g f))"
  unfolding evaluatePropertyAccess_def
  by (cases "propertyAccessStep env n") (auto intro!: partial_function_mono assms)

lemma evaluateBinaryExpression_mono [partial_function_mono]:
  assumes "\<And>x. mono_option (\<lambda>f. g f x)"
  shows "mono_option (\<lambda>f. evaluateBinaryExpression env n (g f))"
  unfolding evaluateBinaryExpression_def
  by (cases n) (auto intro!: partial_function_mono assms)

partial_function (option) evaluate :: "env \<Rightarrow> node \<Rightarrow> EvaluationResult option" where
  "evaluate env n =
     (if isLiteralNode n then Some (evaluateLiteral n)
      else if isWrappedNode n then
        (case resolveIdentifierWithFallback env n of
           Some unwrapped \<Rightarrow> evaluate env unwrapped
         | None \<Rightarrow> Some (Err CannotUnwrapNode))
      else if (case n of Identifier _ \<Rightarrow> True | _ \<Rightarrow> False) then
        (case resolveIdentifierWithFallback env n of
           Some resolved \<Rightarrow>
             (if resolved \<noteq> n then evaluate env resolved
              else Some (Err CannotResolveIdentifier))
         | None \<Rightarrow> Some (Err CannotResolveIdentifier))
      else if (case n of PropertyAccessExpression _ _ \<Rightarrow> True | _ \<Rightarrow> False) then
        evaluatePropertyAccess env n (evaluate env)
      else if isSupportedBinaryExpression n then
        evaluateBinaryExpression env n (evaluate env)
      else Some (Err CannotEvaluateNode))"

text \<open>\<^verbatim>\<open>tryEvaluate\<close>: undefined on an error.\<close>

definition tryEvaluate :: "env \<Rightarrow> node \<Rightarrow> jsval option" where
  "tryEvaluate env n =
     map_option (\<lambda>r. case r of Ok v \<Rightarrow> v | Err _ \<Rightarrow> VUndefined) (evaluate env n)"

section \<open>Helpers on object literals (utils/node-helpers)\<close>

text \<open>
  Modelled from the spec: utils/node-helpers.js is not among the sources. Its functions
  are modelled as the idiom the sources write inline for the same purpose:
  \<^verbatim>\<open>obj.getProperty(name)?.asKind(SyntaxKind.PropertyAssignment)?.getInitializer()\<close>.
\<close>

definition iteratePropertyAssignments :: "member list \<Rightarrow> (propname \<times> node) list" where
  "iteratePropertyAssignments ms =
     concat (map (\<lambda>m. case m of PropertyAssignment pn i \<Rightarrow> [(pn, i)] | _ \<Rightarrow> []) ms)"

definition getPropertyAssignment :: "member list \<Rightarrow> string \<Rightarrow> (propname \<times> node) option" where
  "getPropertyAssignment ms name =
     (case getProperty ms name of Some (PropertyAssignment pn i) \<Rightarrow> Some (pn, i) | _ \<Rightarrow> None)"

definition getPropertyInitializer :: "member list \<Rightarrow> string \<Rightarrow> node option" where
  "getPropertyInitializer ms name = map_option snd (getPropertyAssignment ms name)"

definition extractStringLiteralValue :: "member list \<Rightarrow> string \<Rightarrow> string option" where
  "extractStringLiteralValue ms name =
     (case getPropertyInitializer ms name of Some (StringLiteral s) \<Rightarrow> Some s | _ \<Rightarrow> None)"

definition getPropertyName :: "propname \<Rightarrow> string option" where
  "getPropertyName pn =
     (case pn of IdentifierName s \<Rightarrow> Some s | StringLiteralName s \<Rightarrow> Some s
      | OtherName _ \<Rightarrow> None)"

text \<open>\<^verbatim>\<open>isMethodCall(call, name)\<close>: the callee is a property access named \<open>name\<close>.\<close>

definition isMethodCall :: "node \<Rightarrow> string \<Rightarrow> bool" where
  "isMethodCall call name =
     (case call of
        CallExpression (PropertyAccessExpression _ m) _ \<Rightarrow> m = name
      | _ \<Rightarrow> False)"

definition resolveIdentifierInitializerNode :: "env \<Rightarrow> node \<Rightarrow> node option" where
  "resolveIdentifierInitializerNode env n =
     (case n of Identifier _ \<Rightarrow> resolveIdentifier env n | _ \<Rightarrow> None)"

section \<open>Options of a select setting (select/options)\<close>

datatype extraction_error =
    InvalidNodeType
  | UnsupportedPattern
  | CannotEvaluate
  | MissingProperty
  | UnresolvableSymbol

text \<open>
  A JavaScript record is a list of keys and values in the order of insertion;
  \<open>rec_set\<close> is the assignment \<^verbatim>\<open>r[k] = v\<close>: a key that is there keeps its place. Two
  corners of JavaScript are outside the model: keys that are written as integers are
  listed first, in ascending order, and the assignment to the key \<^verbatim>\<open>__proto__\<close> adds no key.
\<close>

fun rec_set :: "string \<Rightarrow> 'a \<Rightarrow> (string \<times> 'a) list \<Rightarrow> (string \<times> 'a) list" where
  "rec_set k v [] = [(k, v)]"
| "rec_set k v ((k', v') # kvs) = (if k = k' then (k, v) # kvs else (k', v') # rec_set k v kvs)"

text \<open>\<^verbatim>\<open>Object.assign(r, r')\<close>.\<close>

definition rec_assign :: "(string \<times> 'a) list \<Rightarrow> (string \<times> 'a) list \<Rightarrow> (string \<times> 'a) list" where
  "rec_assign r r' = fold (\<lambda>(k, v). rec_set k v) r' r"

type_synonym labels = "(string \<times> string) list"

record select_options =
  opt_values :: "jsval list"
  opt_labels :: labels

type_synonym SelectOptionsResult = "(select_options, extraction_error) result"

definition createSelectOptionsResult :: "jsval list \<Rightarrow> labels \<Rightarrow> SelectOptionsResult" where
  "createSelectOptionsResult vs ls = Ok \<lparr>opt_values = vs, opt_labels = ls\<rparr>"

definition emptyOptions :: SelectOptionsResult where
  "emptyOptions = Ok \<lparr>opt_values = [], opt_labels = []\<rparr>"

text \<open>\<^verbatim>\<open>String(v)\<close> of an enum literal.\<close>

definition stringOf :: "env \<Rightarrow> jsval \<Rightarrow> string" where
  "stringOf env v =
     (case v of VStr s \<Rightarrow> s | VBool b \<Rightarrow> (if b then ''true'' else ''false'')
      | VNum x \<Rightarrow> number_text env x | _ \<Rightarrow> [])"

subsection \<open>array-patterns.ts\<close>

definition VALUE_PROPERTY :: string where
  "VALUE_PROPERTY = ''value''"

definition LABEL_PROPERTY :: string where
  "LABEL_PROPERTY = ''label''"

definition extractValueAndLabel ::
  "env \<Rightarrow> member list \<Rightarrow> (jsval \<times> string option, eval_error) result option" where
  "extractValueAndLabel env obj =
     (case getPropertyAssignment obj VALUE_PROPERTY of
        None \<Rightarrow> Some (Err MissingValueProperty)
      | Some (_, valueInit) \<Rightarrow>
          Option.bind (evaluate env valueInit) (\<lambda>valueResult.
            Some (case valueResult of
                    Err e \<Rightarrow> Err e
                  | Ok v \<Rightarrow>
                      (case getPropertyAssignment obj LABEL_PROPERTY of
                         Some (_, StringLiteral l) \<Rightarrow> Ok (v, if l = [] then None else Some l)
                       | _ \<Rightarrow> Ok (v, None)))))"

text \<open>The two arrays the loops fill, passed as a state.\<close>

type_synonym collected = "jsval list \<times> labels"

definition addValueAndLabel ::
  "env \<Rightarrow> collected \<Rightarrow> (jsval \<times> string option, eval_error) result \<Rightarrow> collected" where
  "addValueAndLabel env acc valueResult =
     (case valueResult of
        Err _ \<Rightarrow> acc
      | Ok (v, label) \<Rightarrow>
          (fst acc @ [v],
           (case label of None \<Rightarrow> snd acc | Some l \<Rightarrow> rec_set (stringOf env v) l (snd acc))))"

fun spreadElements :: "env \<Rightarrow> node list \<Rightarrow> collected \<Rightarrow> collected option" where
  "spreadElements env [] acc = Some acc"
| "spreadElements env (elem # elems) acc =
     (case elem of
        ObjectLiteralExpression obj \<Rightarrow>
          Option.bind (extractValueAndLabel env obj) (\<lambda>r.
            spreadElements env elems (addValueAndLabel env acc r))
      | _ \<Rightarrow> spreadElements env elems acc)"

definition extractFromSpreadElement ::
  "env \<Rightarrow> node \<Rightarrow> (collected, eval_error) result option" where
  "extractFromSpreadElement env expr =
     (case expr of
        Identifier _ \<Rightarrow>
          (case Option.bind (symbolDeclaration env expr) declInitializer of
             None \<Rightarrow> Some (Err CannotResolveSpread)
           | Some (ArrayLiteralExpression elems) \<Rightarrow>
               map_option Ok (spreadElements env elems ([], []))
           | Some _ \<Rightarrow> Some (Err SpreadNotArrayLiteral))
      | _ \<Rightarrow> Some (Err SpreadMustBeIdentifier))"

definition extractOptionsFromArrayMap :: "env \<Rightarrow> node \<Rightarrow> SelectOptionsResult option" where
  "extractOptionsFromArrayMap env arr =
     (case arr of
        ArrayLiteralExpression elems \<Rightarrow>
          Option.bind (those (map (evaluate env) elems)) (\<lambda>results.
            (let vals = concat (map (\<lambda>r. case r of Ok v \<Rightarrow> [v] | Err _ \<Rightarrow> []) results);
                 errors = filter (\<lambda>r. \<not> isOk r) results
             in Some (if errors \<noteq> [] \<and> vals = [] then Err CannotEvaluate
                      else createSelectOptionsResult vals [])))
      | _ \<Rightarrow> Some (Err InvalidNodeType))"

definition GLOBAL_ARRAY_NAME :: string where
  "GLOBAL_ARRAY_NAME = ''Array''"

definition METHOD_NAME_FROM :: string where
  "METHOD_NAME_FROM = ''from''"

definition METHOD_NAME_MAP :: string where
  "METHOD_NAME_MAP = ''map''"

definition METHOD_NAME_KEYS :: string where
  "METHOD_NAME_KEYS = ''keys''"

definition METHOD_NAME_VALUES :: string where
  "METHOD_NAME_VALUES = ''values''"

text \<open>\<^verbatim>\<open>isArrayFromCall\<close> of index.ts, on the callee.\<close>

definition isArrayFromCallee :: "env \<Rightarrow> node \<Rightarrow> bool" where
  "isArrayFromCallee env expr =
     (case expr of
        PropertyAccessExpression (Identifier x) name \<Rightarrow>
          getText env (Identifier x) = GLOBAL_ARRAY_NAME \<and> name = METHOD_NAME_FROM
      | _ \<Rightarrow> False)"

text \<open>\<^verbatim>\<open>isArrayFromCall\<close> of patterns/index.ts, on the call.\<close>

definition isArrayFromCall :: "env \<Rightarrow> node \<Rightarrow> bool" where
  "isArrayFromCall env call =
     (case call of CallExpression expr _ \<Rightarrow> isArrayFromCallee env expr | _ \<Rightarrow> False)"

definition extractOptionsFromArrayFrom :: "env \<Rightarrow> node \<Rightarrow> SelectOptionsResult option" where
  "extractOptionsFromArrayFrom env call =
     (if \<not> isArrayFromCall env call then Some (Err UnsupportedPattern)
      else case call of
        CallExpression _ [] \<Rightarrow> Some (Err MissingProperty)
      | CallExpression _ (firstArg # _) \<Rightarrow>
          (case firstArg of
             ArrayLiteralExpression _ \<Rightarrow> extractOptionsFromArrayMap env firstArg
           | Identifier _ \<Rightarrow>
               (case resolveIdentifierInitializerNode env firstArg of
                  Some (ArrayLiteralExpression elems) \<Rightarrow>
                    extractOptionsFromArrayMap env (ArrayLiteralExpression elems)
                | _ \<Rightarrow> Some (Err UnsupportedPattern))
           | _ \<Rightarrow> Some (Err UnsupportedPattern))
      | _ \<Rightarrow> Some (Err UnsupportedPattern))"

fun objectArrayElements :: "env \<Rightarrow> node list \<Rightarrow> collected \<Rightarrow> collected option" where
  "objectArrayElements env [] acc = Some acc"
| "objectArrayElements env (element # elements) acc =
     (case element of
        ObjectLiteralExpression obj \<Rightarrow>
          Option.bind (extractValueAndLabel env obj) (\<lambda>r.
            objectArrayElements env elements (addValueAndLabel env acc r))
      | SpreadElement expr \<Rightarrow>
          Option.bind (extractFromSpreadElement env expr) (\<lambda>spreadResult.
            objectArrayElements env elements
              (case spreadResult of
                 Ok (vs, ls) \<Rightarrow> (fst acc @ vs, rec_assign (snd acc) ls)
               | Err _ \<Rightarrow> acc))
      | _ \<Rightarrow> objectArrayElements env elements acc)"

text \<open>
  \<^verbatim>\<open>hasMissingValueProp\<close> only chooses the message of the error, which the model leaves
  out: an extraction error is its kind.
\<close>

definition extractOptionsFromObjectArray ::
  "env \<Rightarrow> node list \<Rightarrow> SelectOptionsResult option" where
  "extractOptionsFromObjectArray env elements =
     (let hasElements = (elements \<noteq> []) in
      Option.bind (objectArrayElements env elements ([], [])) (\<lambda>(vals, labels).
        Some (if vals = [] \<and> hasElements then Err CannotEvaluate
              else createSelectOptionsResult vals labels)))"

subsection \<open>object-patterns.ts\<close>

text \<open>
  The object literal an \<^verbatim>\<open>Object.keys(x)\<close> or \<^verbatim>\<open>Object.values(x)\<close> call ranges over: the
  initializer of the identifier \<open>x\<close>, one \<^verbatim>\<open>as\<close> wrapper removed and unwrapped.
\<close>

definition objectMethodTarget :: "env \<Rightarrow> node \<Rightarrow> node option" where
  "objectMethodTarget env firstArg =
     map_option (\<lambda>n. case n of AsExpression e _ \<Rightarrow> unwrapNode e | _ \<Rightarrow> n)
       (resolveIdentifierInitializerNode env firstArg)"

text \<open>The name of a property that is neither an identifier nor a string literal throws.\<close>

definition keyOfName :: "propname \<Rightarrow> jsval option" where
  "keyOfName pn =
     (case pn of IdentifierName s \<Rightarrow> Some (VStr s) | StringLiteralName s \<Rightarrow> Some (VStr s)
      | OtherName _ \<Rightarrow> None)"

definition extractOptionsFromObjectKeys :: "env \<Rightarrow> node \<Rightarrow> SelectOptionsResult option" where
  "extractOptionsFromObjectKeys env call =
     (case call of
        CallExpression _ args \<Rightarrow>
          (if \<not> isMethodCall call METHOD_NAME_KEYS then Some (Err UnsupportedPattern)
           else case args of
             Identifier x # _ \<Rightarrow>
               (case objectMethodTarget env (Identifier x) of
                  Some (ObjectLiteralExpression obj) \<Rightarrow>
                    Option.bind
                      (those (map (\<lambda>(pn, _). keyOfName pn) (iteratePropertyAssignments obj)))
                      (\<lambda>keys. Some (Ok \<lparr>opt_values = keys, opt_labels = []\<rparr>))
                | _ \<Rightarrow> Some (Err UnresolvableSymbol))
           | _ \<Rightarrow> Some (Err UnresolvableSymbol))
      | _ \<Rightarrow> Some (Err InvalidNodeType))"

definition extractOptionsFromObjectValues :: "env \<Rightarrow> node \<Rightarrow> SelectOptionsResult option" where
  "extractOptionsFromObjectValues env call =
     (case call of
        CallExpression _ args \<Rightarrow>
          (if \<not> isMethodCall call METHOD_NAME_VALUES then Some (Err UnsupportedPattern)
           else case args of
             Identifier x # _ \<Rightarrow>
               (case objectMethodTarget env (Identifier x) of
                  Some (ObjectLiteralExpression obj) \<Rightarrow>
                    Option.bind
                      (those (map (\<lambda>(_, init). evaluate env init)
                                (iteratePropertyAssignments obj)))
                      (\<lambda>results.
                         Some (Ok \<lparr>opt_values =
                                     concat (map (\<lambda>r. case r of Ok v \<Rightarrow> [v] | Err _ \<Rightarrow> [])
                                               results),
                                   opt_labels = []\<rparr>))
                | _ \<Rightarrow> Some (Err UnresolvableSymbol))
           | _ \<Rightarrow> Some (Err UnresolvableSymbol))
      | _ \<Rightarrow> Some (Err InvalidNodeType))"

subsection \<open>The lookup-table idiom (node-utils.ts, theme-patterns.ts)\<close>

definition findConstText :: "env \<Rightarrow> string \<Rightarrow> string option" where
  "findConstText env constName =
     (case file_var env constName of Some (StringLiteral s) \<Rightarrow> Some s | _ \<Rightarrow> None)"

text \<open>An empty constant is falsy, as a missing one.\<close>

definition resolveThemeUrl :: "env \<Rightarrow> string \<Rightarrow> string option" where
  "resolveThemeUrl env name =
     (case (findConstText env ''SHIKI_REPO'', findConstText env ''SHIKI_REPO_COMMIT'') of
        (Some repo, Some commit) \<Rightarrow>
          (if repo \<noteq> [] \<and> commit \<noteq> [] then
             Some (''https://raw.githubusercontent.com/'' @ repo @ ''/'' @ commit
                   @ ''/packages/tm-themes/themes/'' @ name @ ''.json'')
           else None)
      | _ \<Rightarrow> None)"

definition themeValue :: "env \<Rightarrow> node \<Rightarrow> string option" where
  "themeValue env vinit =
     (case vinit of
        StringLiteral s \<Rightarrow> Some s
      | CallExpression (Identifier callee) (StringLiteral arg0 # _) \<Rightarrow>
          (if getText env (Identifier callee) = ''shikiRepoTheme'' then resolveThemeUrl env arg0
           else None)
      | _ \<Rightarrow> None)"

definition evaluateThemesValues :: "env \<Rightarrow> node \<Rightarrow> string list" where
  "evaluateThemesValues env themesIdent =
     (case themesIdent of
        Identifier _ \<Rightarrow>
          (case resolveIdentifierInitializerNode env themesIdent of
             Some (ObjectLiteralExpression obj) \<Rightarrow>
               concat (map (\<lambda>(_, vinit). case themeValue env vinit of Some s \<Rightarrow> [s] | None \<Rightarrow> [])
                         (iteratePropertyAssignments obj))
           | _ \<Rightarrow> [])
      | _ \<Rightarrow> [])"

definition stringOptions :: "string list \<Rightarrow> SelectOptionsResult" where
  "stringOptions xs = Ok \<lparr>opt_values = map VStr xs, opt_labels = []\<rparr>"

definition extractThemeKeys :: "env \<Rightarrow> node \<Rightarrow> SelectOptionsResult" where
  "extractThemeKeys env arg0 =
     (let evaluated = evaluateThemesValues env arg0 in
      if evaluated \<noteq> [] then stringOptions evaluated
      else case resolveIdentifierInitializerNode env arg0 of
        Some (ObjectLiteralExpression obj) \<Rightarrow>
          (let keys = filter (\<lambda>k. k \<noteq> [])
                        (map (\<lambda>(pn, _). case getPropertyName pn of Some k \<Rightarrow> k | None \<Rightarrow> [])
                           (iteratePropertyAssignments obj))
           in if keys \<noteq> [] then stringOptions keys else Err CannotEvaluate)
      | _ \<Rightarrow> Err UnresolvableSymbol)"

definition extractFromArrowFunctionBody :: "env \<Rightarrow> node list \<Rightarrow> SelectOptionsResult" where
  "extractFromArrowFunctionBody env args =
     (case args of
        [] \<Rightarrow> Err MissingProperty
      | ArrowFunction body # _ \<Rightarrow>
          (case unwrapNode body of
             ObjectLiteralExpression obj \<Rightarrow>
               (case getProperty obj VALUE_PROPERTY of
                  Some (PropertyAssignment _ (ElementAccessExpression themesExpr _)) \<Rightarrow>
                    (case themesExpr of
                       Identifier _ \<Rightarrow>
                         (let vals = evaluateThemesValues env themesExpr in
                          if vals \<noteq> [] then stringOptions vals else Err UnsupportedPattern)
                     | _ \<Rightarrow> Err UnsupportedPattern)
                | _ \<Rightarrow> Err UnsupportedPattern)
           | _ \<Rightarrow> Err UnsupportedPattern)
      | _ \<Rightarrow> Err InvalidNodeType)"

definition extractFromObjectKeysCall :: "env \<Rightarrow> node \<Rightarrow> SelectOptionsResult" where
  "extractFromObjectKeysCall env ic =
     (if \<not> isMethodCall ic METHOD_NAME_KEYS then Err UnsupportedPattern
      else case ic of
        CallExpression _ (Identifier x # _) \<Rightarrow> extractThemeKeys env (Identifier x)
      | _ \<Rightarrow> Err UnsupportedPattern)"

definition extractFromObjectKeysCallAsExpression :: "env \<Rightarrow> node \<Rightarrow> SelectOptionsResult" where
  "extractFromObjectKeysCallAsExpression env expr =
     (case unwrapNode expr of
        CallExpression callee args \<Rightarrow>
          (case extractFromObjectKeysCall env (CallExpression callee args) of
             Ok r \<Rightarrow> Ok r
           | Err _ \<Rightarrow> Err UnsupportedPattern)
      | _ \<Rightarrow> Err UnsupportedPattern)"

definition extractOptionsFromThemePattern :: "env \<Rightarrow> node \<Rightarrow> node \<Rightarrow> SelectOptionsResult" where
  "extractOptionsFromThemePattern env target call =
     (case target of
        Identifier _ \<Rightarrow>
          (case call of
             CallExpression _ args \<Rightarrow>
               (case (if args \<noteq> [] then extractFromArrowFunctionBody env args
                      else Err UnsupportedPattern) of
                  Ok r \<Rightarrow> Ok r
                | Err _ \<Rightarrow>
                    (case resolveIdentifierInitializerNode env target of
                       None \<Rightarrow> Err UnsupportedPattern
                     | Some initNode \<Rightarrow>
                         (case (case initNode of
                                  CallExpression _ _ \<Rightarrow> extractFromObjectKeysCall env initNode
                                | _ \<Rightarrow> Err UnsupportedPattern) of
                            Ok r \<Rightarrow> Ok r
                          | Err _ \<Rightarrow>
                              (case initNode of
                                 AsExpression e _ \<Rightarrow> extractFromObjectKeysCallAsExpression env e
                               | _ \<Rightarrow> Err UnsupportedPattern))))
           | _ \<Rightarrow> Err InvalidNodeType)
      | _ \<Rightarrow> Err InvalidNodeType)"

subsection \<open>index.ts\<close>

definition OPTIONS_PROPERTY :: string where
  "OPTIONS_PROPERTY = ''options''"

definition extractFromMapCall ::
  "env \<Rightarrow> string \<Rightarrow> node \<Rightarrow> node \<Rightarrow> SelectOptionsResult option" where
  "extractFromMapCall env name target call =
     (if name \<noteq> METHOD_NAME_MAP then Some (Err UnsupportedPattern)
      else
        Option.bind (extractOptionsFromArrayMap env target) (\<lambda>arrayResult.
          if isOk arrayResult then Some arrayResult
          else
            Option.bind
              (case target of
                 CallExpression _ _ \<Rightarrow>
                   Option.bind (extractOptionsFromObjectKeys env target) (\<lambda>keysResult.
                     if isOk keysResult then Some keysResult
                     else extractOptionsFromObjectValues env target)
               | _ \<Rightarrow> Some (Err UnsupportedPattern))
              (\<lambda>objectResult.
                 if isOk objectResult then Some objectResult
                 else
                   (case extractOptionsFromThemePattern env target call of
                      Ok r \<Rightarrow> Some (Ok r)
                    | Err _ \<Rightarrow> Some (Err UnsupportedPattern)))))"

definition extractFromCallExpression :: "env \<Rightarrow> node \<Rightarrow> SelectOptionsResult option" where
  "extractFromCallExpression env call =
     (case call of
        CallExpression expr _ \<Rightarrow>
          (if isArrayFromCallee env expr then extractOptionsFromArrayFrom env call
           else case expr of
             PropertyAccessExpression target name \<Rightarrow> extractFromMapCall env name target call
           | _ \<Rightarrow> Some (Err UnsupportedPattern))
      | _ \<Rightarrow> Some (Err InvalidNodeType))"

definition extractSelectOptions :: "env \<Rightarrow> member list \<Rightarrow> SelectOptionsResult option" where
  "extractSelectOptions env obj =
     (case getProperty obj OPTIONS_PROPERTY of
        Some (PropertyAssignment _ initializer) \<Rightarrow>
          (case unwrapNode initializer of
             ArrayLiteralExpression elements \<Rightarrow> extractOptionsFromObjectArray env elements
           | CallExpression callee args \<Rightarrow>
               Option.bind (extractFromCallExpression env (CallExpression callee args)) (\<lambda>r.
                 Some (if isOk r then r else emptyOptions))
           | _ \<Rightarrow> Some emptyOptions)
      | _ \<Rightarrow> Some emptyOptions)"

section \<open>Constants (extractor/constants)\<close>

text \<open>
  Modelled from the spec: extractor/constants.js and shared/types.js are not among the
  sources. A property-name constant has the value its name says, which is the spelling
  the sources use where they write the same key inline; an option-type token is the
  name of the annotation as the spec's scenarios write it (\<^verbatim>\<open>type: NUMBER\<close>,
  \<^verbatim>\<open>type: CUSTOM\<close>); the length of a boolean enumeration is two (``a two-element
  boolean-valued enumeration''); the TypeScript type names are the keywords.
\<close>

definition TYPE_PROPERTY :: string where
  "TYPE_PROPERTY = ''type''"

definition DEFAULT_PROPERTY :: string where
  "DEFAULT_PROPERTY = ''default''"

definition COMPONENT_PROPERTY :: string where
  "COMPONENT_PROPERTY = ''component''"

definition NAME_PROPERTY :: string where
  "NAME_PROPERTY = ''name''"

definition DESCRIPTION_PROPERTY :: string where
  "DESCRIPTION_PROPERTY = ''description''"

definition BOOLEAN_ENUM_LENGTH :: nat where
  "BOOLEAN_ENUM_LENGTH = 2"

definition OPTION_TYPE_BOOLEAN :: string where
  "OPTION_TYPE_BOOLEAN = ''BOOLEAN''"

definition OPTION_TYPE_STRING :: string where
  "OPTION_TYPE_STRING = ''STRING''"

definition OPTION_TYPE_NUMBER :: string where
  "OPTION_TYPE_NUMBER = ''NUMBER''"

definition OPTION_TYPE_BIGINT :: string where
  "OPTION_TYPE_BIGINT = ''BIGINT''"

definition OPTION_TYPE_SELECT :: string where
  "OPTION_TYPE_SELECT = ''SELECT''"

definition OPTION_TYPE_SLIDER :: string where
  "OPTION_TYPE_SLIDER = ''SLIDER''"

definition OPTION_TYPE_COMPONENT :: string where
  "OPTION_TYPE_COMPONENT = ''COMPONENT''"

definition OPTION_TYPE_CUSTOM :: string where
  "OPTION_TYPE_CUSTOM = ''CUSTOM''"

definition TS_TYPE_STRING :: string where
  "TS_TYPE_STRING = ''string''"

definition TS_TYPE_NUMBER :: string where
  "TS_TYPE_NUMBER = ''number''"

definition TS_TYPE_BOOLEAN :: string where
  "TS_TYPE_BOOLEAN = ''boolean''"

definition TS_ARRAY_BRACKET_PATTERN :: string where
  "TS_ARRAY_BRACKET_PATTERN = ''[]''"

definition TS_ARRAY_GENERIC_PATTERN :: string where
  "TS_ARRAY_GENERIC_PATTERN = ''Array<''"

text \<open>
  Modelled from the spec: the strings \<^verbatim>\<open>NIX_TYPE_*\<close> and \<^verbatim>\<open>NIX_ENUM_TYPE\<close> are the spec's
  closed enumeration of target types. The one test the sources make inside such a
  string, \<^verbatim>\<open>includes('nullOr')\<close>, holds of the nullable string type alone.
\<close>

datatype nix_type =
    NIX_TYPE_BOOL
  | NIX_TYPE_STR
  | NIX_TYPE_INT
  | NIX_TYPE_FLOAT
  | NIX_TYPE_NULL_OR_STR
  | NIX_TYPE_ATTRS
  | NIX_TYPE_LIST_OF_STR
  | NIX_TYPE_LIST_OF_ATTRS
  | NIX_ENUM_TYPE

definition includes_nullOr :: "nix_type \<Rightarrow> bool" where
  "includes_nullOr t = (t = NIX_TYPE_NULL_OR_STR)"

text \<open>\<^verbatim>\<open>String.prototype.includes\<close>.\<close>

definition str_includes :: "string \<Rightarrow> string \<Rightarrow> bool" where
  "str_includes s sub = sublist sub s"

section \<open>Default values (extractor/default-value)\<close>

type_synonym DefaultValueResult = "(jsval, extraction_error) result"

definition handleEmpty :: "node \<Rightarrow> DefaultValueResult" where
  "handleEmpty n =
     (case n of ArrayLiteralExpression _ \<Rightarrow> Ok (VArr [])
      | ObjectLiteralExpression _ \<Rightarrow> Ok (VObj [])
      | _ \<Rightarrow> Ok VUndefined)"

text \<open>
  The \<^verbatim>\<open>try\<close> of \<^verbatim>\<open>handleIdentifier\<close> catches what the evaluation throws, so the function
  always returns. \<open>131\<close> is the numeric kind the source compares with.
\<close>

definition handleIdentifier :: "env \<Rightarrow> node \<Rightarrow> string \<Rightarrow> DefaultValueResult" where
  "handleIdentifier env unwrappedInitializer identText =
     (if identText = ''undefined'' then Ok VNull
      else case resolveIdentifierInitializerNode env unwrappedInitializer of
        None \<Rightarrow> Ok VUndefined
      | Some init \<Rightarrow>
          (let unwrappedNode = unwrapNode init in
           if getText env unwrappedNode = ''undefined'' \<or> unwrappedNode = OtherNode 131
           then Ok VNull
           else if isCollectionKind unwrappedNode then handleEmpty unwrappedNode
           else case tryEvaluate env init of
                  Some v \<Rightarrow> Ok v
                | None \<Rightarrow> Err CannotEvaluate))"

text \<open>\<^verbatim>\<open>getValueDecl\<close> of node-utils.ts: no \<^verbatim>\<open>try\<close> around \<^verbatim>\<open>getAliasedSymbol\<close>.\<close>

definition getValueDecl :: "symbol option \<Rightarrow> decl option option" where
  "getValueDecl smb =
     (case smb of
        None \<Rightarrow> Some None
      | Some s \<Rightarrow>
          (case valueDeclaration s of
             Some d \<Rightarrow> Some (Some d)
           | None \<Rightarrow> (case aliased s of NotAlias \<Rightarrow> None | Alias d \<Rightarrow> Some d)))"

definition extractArrowBody :: "node \<Rightarrow> node option" where
  "extractArrowBody n = (case n of ArrowFunction body \<Rightarrow> Some (unwrapNode body) | _ \<Rightarrow> None)"

definition resolvePropAccessMethod :: "env \<Rightarrow> node \<Rightarrow> string \<Rightarrow> node option option" where
  "resolvePropAccessMethod env baseExpr name =
     (case baseExpr of
        Identifier _ \<Rightarrow>
          Option.bind (getValueDecl (symbol_at env baseExpr)) (\<lambda>baseDecl.
            Some (case Option.bind baseDecl declInitializer of
                    Some (ObjectLiteralExpression obj) \<Rightarrow>
                      (case getProperty obj name of
                         Some (PropertyAssignment _ methodInit) \<Rightarrow> extractArrowBody methodInit
                       | _ \<Rightarrow> None)
                  | _ \<Rightarrow> None))
      | _ \<Rightarrow> Some None)"

text \<open>
  \<^verbatim>\<open>getArrowBodyFromInit\<close> reads the kind of the initializer without testing that there is
  one: a declaration with \<^verbatim>\<open>getInitializer\<close> and no initializer throws.
\<close>

definition resolveIdentCall :: "env \<Rightarrow> node \<Rightarrow> node option option" where
  "resolveIdentCall env ident =
     Option.bind (getValueDecl (symbol_at env ident)) (\<lambda>decl.
       case decl of
         None \<Rightarrow> Some None
       | Some (ArrowFunctionDecl body) \<Rightarrow> Some (Some (unwrapNode body))
       | Some OtherDecl \<Rightarrow> Some None
       | Some d \<Rightarrow> map_option extractArrowBody (declInitializer d))"

definition resolveCallExpressionReturn :: "env \<Rightarrow> node \<Rightarrow> node option option" where
  "resolveCallExpressionReturn env n =
     (case n of
        CallExpression (PropertyAccessExpression baseExpr name) _ \<Rightarrow>
          resolvePropAccessMethod env baseExpr name
      | CallExpression (Identifier x) _ \<Rightarrow> resolveIdentCall env (Identifier x)
      | _ \<Rightarrow> Some None)"

fun callObjectProperties ::
  "env \<Rightarrow> (propname \<times> node) list \<Rightarrow> (string \<times> jsval) list \<Rightarrow> (string \<times> jsval) list option"
  where
  "callObjectProperties env [] acc = Some acc"
| "callObjectProperties env ((propName, propInitializer) # rest) acc =
     (let key = (case propName of OtherName _ \<Rightarrow> []
                 | _ \<Rightarrow> stripQuotes (propname_text propName))
      in if key = [] then callObjectProperties env rest acc
         else
           Option.bind (tryEvaluate env propInitializer) (\<lambda>v.
             callObjectProperties env rest
               (if v \<noteq> VUndefined then rec_set key v acc
                else case propInitializer of
                       ArrayLiteralExpression _ \<Rightarrow> rec_set key (VArr []) acc
                     | ObjectLiteralExpression _ \<Rightarrow> rec_set key (VObj []) acc
                     | _ \<Rightarrow> acc)))"

definition handleCallExpression :: "env \<Rightarrow> node \<Rightarrow> DefaultValueResult option" where
  "handleCallExpression env callExpr =
     (case callExpr of
        CallExpression expr args \<Rightarrow>
          (case args of
             ObjectLiteralExpression objLiteral # _ \<Rightarrow>
               map_option (\<lambda>r. Ok (VObj r))
                 (callObjectProperties env (iteratePropertyAssignments objLiteral) [])
           | _ \<Rightarrow>
               Option.bind (resolveCallExpressionReturn env callExpr) (\<lambda>resolved.
                 Some (case resolved of
                         Some r \<Rightarrow> handleEmpty r
                       | None \<Rightarrow>
                           (let exprText = getText env expr in
                            if prefix ''Object.'' exprText \<or> prefix ''Array.'' exprText then
                              (if str_includes exprText ''fromEntries'' \<or> str_includes exprText ''assign''
                                  \<or> str_includes exprText ''create''
                               then Ok (VObj [])
                               else if str_includes exprText ''keys'' \<or> str_includes exprText ''values''
                                       \<or> str_includes exprText ''entries''
                               then Ok (VArr [])
                               else Ok VUndefined)
                            else Ok VUndefined))))
      | _ \<Rightarrow> Some (Ok VUndefined))"

definition bigIntText :: "string \<Rightarrow> string" where
  "bigIntText raw =
     (if raw \<noteq> [] \<and> (last raw = CHR ''n'' \<or> last raw = CHR ''N'') then butlast raw else raw)"

definition extractDefaultValue :: "env \<Rightarrow> member list \<Rightarrow> DefaultValueResult option" where
  "extractDefaultValue env obj =
     (case getPropertyInitializer obj DEFAULT_PROPERTY of
        None \<Rightarrow> Some (Ok VUndefined)
      | Some initializer \<Rightarrow>
          (let unwrappedInitializer = unwrapNode initializer in
           case unwrappedInitializer of
             TemplateExpression \<Rightarrow> Some (Ok VUndefined)
           | BigIntLiteral raw \<Rightarrow> Some (Ok (VStr (bigIntText raw)))
           | NullKeyword \<Rightarrow> Some (Ok VNull)
           | UndefinedKeyword \<Rightarrow> Some (Ok VNull)
           | ArrayLiteralExpression _ \<Rightarrow> Some (handleEmpty unwrappedInitializer)
           | ObjectLiteralExpression _ \<Rightarrow> Some (handleEmpty unwrappedInitializer)
           | PropertyAccessExpression expr _ \<Rightarrow>
               (if (case expr of Identifier x \<Rightarrow> getText env expr = get_function_name env
                    | _ \<Rightarrow> False)
                then Some (Ok VUndefined)
                else map_option Ok (tryEvaluate env unwrappedInitializer))
           | Identifier x \<Rightarrow>
               Some (handleIdentifier env unwrappedInitializer (getText env unwrappedInitializer))
           | CallExpression _ _ \<Rightarrow> handleCallExpression env unwrappedInitializer
           | _ \<Rightarrow>
               map_option (\<lambda>evaluated. if evaluated \<noteq> VUndefined then Ok evaluated
                                        else Err CannotEvaluate)
                 (tryEvaluate env unwrappedInitializer)))"

section \<open>The default of a select setting (select/default)\<close>

type_synonym SelectDefaultResult = "(jsval, extraction_error) result"

definition resolveEnumLikeValue :: "env \<Rightarrow> node \<Rightarrow> (jsval, extraction_error) result option" where
  "resolveEnumLikeValue env valueInitializer =
     map_option (\<lambda>r. case r of Ok v \<Rightarrow> Ok v | Err _ \<Rightarrow> Err CannotEvaluate)
       (evaluate env valueInitializer)"

text \<open>\<^verbatim>\<open>result.isOk && result.value !== undefined\<close>.\<close>

definition isDefined :: "SelectDefaultResult \<Rightarrow> bool" where
  "isDefined r = (case r of Ok v \<Rightarrow> v \<noteq> VUndefined | Err _ \<Rightarrow> False)"

definition extractDefaultFromArrowFunction ::
  "env \<Rightarrow> node list \<Rightarrow> node \<Rightarrow> SelectDefaultResult option" where
  "extractDefaultFromArrowFunction env args obj =
     (case args of
        [] \<Rightarrow> Some (Ok VUndefined)
      | arg0 # _ \<Rightarrow>
          (case getArrowFunctionBody arg0 of
             Some (ObjectLiteralExpression bodyObj) \<Rightarrow>
               (let defInit = getPropertyInitializer bodyObj DEFAULT_PROPERTY;
                    valueInit = getPropertyInitializer bodyObj VALUE_PROPERTY
                in
                Option.bind
                  (case (defInit, valueInit) of
                     (Some TrueKeyword, Some vi) \<Rightarrow> resolveEnumLikeValue env vi
                   | _ \<Rightarrow> Some (Err CannotEvaluate))
                  (\<lambda>valueVal.
                     if isOk valueVal then Some valueVal
                     else case defInit of
                       Some (BinaryExpression _ _ right) \<Rightarrow>
                         Option.bind (resolveEnumLikeValue env right) (\<lambda>val.
                           if isOk val then Some val
                           else case valueInit of
                             None \<Rightarrow> Some (Ok VUndefined)
                           | Some vi \<Rightarrow>
                               Option.bind (resolveEnumLikeValue env vi) (\<lambda>valueVal.
                                 Some (if isOk valueVal then valueVal else Ok VUndefined)))
                     | Some (CallExpression _ _) \<Rightarrow>
                         (case obj of
                            ArrayLiteralExpression (firstEl # _) \<Rightarrow>
                              (case firstEl of
                                 StringLiteral s \<Rightarrow> Some (Ok (VStr s))
                               | _ \<Rightarrow>
                                   Option.bind (resolveEnumLikeValue env firstEl) (\<lambda>val.
                                     Some (if isOk val then val else Ok VUndefined)))
                          | _ \<Rightarrow> Some (Ok VUndefined))
                     | _ \<Rightarrow> Some (Ok VUndefined)))
           | _ \<Rightarrow> Some (Ok VUndefined)))"

text \<open>\<^verbatim>\<open>findDefaultInElement\<close> on an object literal.\<close>

definition findDefaultInObject :: "env \<Rightarrow> member list \<Rightarrow> SelectDefaultResult option" where
  "findDefaultInObject env obj =
     (case getPropertyAssignment obj DEFAULT_PROPERTY of
        Some (_, TrueKeyword) \<Rightarrow>
          (case getPropertyInitializer obj VALUE_PROPERTY of
             None \<Rightarrow> Some (Ok VUndefined)
           | Some valueInit \<Rightarrow>
               map_option (\<lambda>val. case val of Ok v \<Rightarrow> Ok v | Err _ \<Rightarrow> Ok VUndefined)
                 (evaluate env valueInit))
      | _ \<Rightarrow> Some (Ok VUndefined))"

text \<open>
  The array a spread element of the options stands for, when its expression is an
  identifier that resolves to an array literal.
\<close>

definition spreadArray :: "env \<Rightarrow> node \<Rightarrow> node list option" where
  "spreadArray env expr =
     (case resolveIdentifierInitializerNode env expr of
        Some (ArrayLiteralExpression elems) \<Rightarrow> Some elems
      | _ \<Rightarrow> None)"

text \<open>
  \<^verbatim>\<open>find\<close> takes the first element on which \<^verbatim>\<open>findDefaultInElement\<close> gives a value, and
  the function returns \<^verbatim>\<open>findDefaultInElement\<close> of it, computed a second time in the
  source. A spread element searches the array it stands for, which may contain itself.
\<close>

partial_function (option) findDefaultInArrayLiteral ::
  "env \<Rightarrow> node list \<Rightarrow> SelectDefaultResult option" where
  "findDefaultInArrayLiteral env elements =
     (case elements of
        [] \<Rightarrow> Some (Ok VUndefined)
      | element # rest \<Rightarrow>
          Option.bind
            (case element of
               ObjectLiteralExpression obj \<Rightarrow> findDefaultInObject env obj
             | SpreadElement expr \<Rightarrow>
                 (case spreadArray env expr of
                    Some elems \<Rightarrow> findDefaultInArrayLiteral env elems
                  | None \<Rightarrow> Some (Ok VUndefined))
             | _ \<Rightarrow> Some (Ok VUndefined))
            (\<lambda>r. if isDefined r then Some r else findDefaultInArrayLiteral env rest))"

definition isTripleEquals :: "node \<Rightarrow> bool" where
  "isTripleEquals n =
     (case n of BinaryExpression _ opr _ \<Rightarrow> opr = EqualsEqualsEqualsToken | _ \<Rightarrow> False)"

text \<open>The \<^verbatim>\<open>Object.keys(x).map(...)\<close> branch of \<^verbatim>\<open>extractDefaultFromCallExpression\<close>.\<close>

definition defaultFromObjectKeys :: "env \<Rightarrow> node \<Rightarrow> node list \<Rightarrow> SelectDefaultResult" where
  "defaultFromObjectKeys env targetCall args =
     (case targetCall of
        CallExpression (PropertyAccessExpression _ innerName) keysArgs \<Rightarrow>
          (if innerName \<noteq> ''keys'' then Ok VUndefined
           else case keysArgs of
             Identifier x # _ \<Rightarrow>
               (case args of
                  arg0 # _ \<Rightarrow>
                    (case getArrowFunctionBody arg0 of
                       Some (ObjectLiteralExpression bodyObj) \<Rightarrow>
                         (case getPropertyAssignment bodyObj DEFAULT_PROPERTY of
                            Some (_, defInit) \<Rightarrow>
                              (if defInit = TrueKeyword \<or> isTripleEquals defInit then
                                 (case (case resolveIdentifierInitializerNode env (Identifier x) of
                                          Some (ObjectLiteralExpression ms) \<Rightarrow> Some ms
                                        | _ \<Rightarrow>
                                            (case file_var env (getText env (Identifier x)) of
                                               Some (ObjectLiteralExpression ms) \<Rightarrow> Some ms
                                             | _ \<Rightarrow> None)) of
                                    Some resolvedObj \<Rightarrow>
                                      (case iteratePropertyAssignments resolvedObj of
                                         (pn, _) # _ \<Rightarrow> Ok (VStr (propname_text pn))
                                       | [] \<Rightarrow> Ok VUndefined)
                                  | None \<Rightarrow> Ok VUndefined)
                               else Ok VUndefined)
                          | None \<Rightarrow> Ok VUndefined)
                     | _ \<Rightarrow> Ok VUndefined)
                | [] \<Rightarrow> Ok VUndefined)
           | _ \<Rightarrow> Ok VUndefined)
      | _ \<Rightarrow> Ok VUndefined)"

definition extractDefaultFromCallExpression :: "env \<Rightarrow> node \<Rightarrow> SelectDefaultResult option" where
  "extractDefaultFromCallExpression env call =
     (case call of
        CallExpression (PropertyAccessExpression target name) args \<Rightarrow>
          (if name \<noteq> ''map'' then Some (Ok VUndefined)
           else
             Option.bind
               (case target of
                  ArrayLiteralExpression _ \<Rightarrow> extractDefaultFromArrowFunction env args target
                | Identifier _ \<Rightarrow> extractDefaultFromArrowFunction env args target
                | _ \<Rightarrow> Some (Ok VUndefined))
               (\<lambda>r. if isDefined r then Some r
                     else Some (defaultFromObjectKeys env target args)))
      | _ \<Rightarrow> Some (Ok VUndefined))"

definition extractSelectDefault :: "env \<Rightarrow> member list \<Rightarrow> SelectDefaultResult option" where
  "extractSelectDefault env obj =
     (case getPropertyAssignment obj OPTIONS_PROPERTY of
        None \<Rightarrow> Some (Ok VUndefined)
      | Some (_, initializer) \<Rightarrow>
          (let initUnwrapped =
                 (case getArrowFunctionBody initializer of Some b \<Rightarrow> b | None \<Rightarrow> initializer)
           in case initUnwrapped of
                CallExpression _ _ \<Rightarrow>
                  Option.bind (extractDefaultFromCallExpression env initUnwrapped) (\<lambda>r.
                    Some (if isDefined r then r else Ok VUndefined))
              | ArrayLiteralExpression elements \<Rightarrow> findDefaultInArrayLiteral env elements
              | _ \<Rightarrow> Some (Ok VUndefined)))"

section \<open>Shapes of the default property (default-value-checks, type-helpers)\<close>

definition getDefaultPropertyInitializer :: "member list \<Rightarrow> node option" where
  "getDefaultPropertyInitializer obj = getPropertyInitializer obj DEFAULT_PROPERTY"

definition isStringArray :: "node list \<Rightarrow> bool" where
  "isStringArray elems = list_all (\<lambda>el. case el of StringLiteral _ \<Rightarrow> True | _ \<Rightarrow> False) elems"

definition isStringArrayAsExpr :: "env \<Rightarrow> node \<Rightarrow> string \<Rightarrow> bool" where
  "isStringArrayAsExpr env expr typeText =
     (string_array_type env typeText
      \<and> (case expr of ArrayLiteralExpression _ \<Rightarrow> True | _ \<Rightarrow> False))"

definition checkStringArrayInit :: "env \<Rightarrow> node \<Rightarrow> bool" where
  "checkStringArrayInit env init =
     (case init of
        ArrayLiteralExpression elems \<Rightarrow> isStringArray elems
      | AsExpression expr typeText \<Rightarrow> isStringArrayAsExpr env expr typeText
      | _ \<Rightarrow> False)"

definition getIdentifierInit :: "env \<Rightarrow> node \<Rightarrow> node option" where
  "getIdentifierInit env ident = Option.bind (symbolDeclaration env ident) declInitializer"

definition hasStringArrayDefault :: "env \<Rightarrow> member list \<Rightarrow> bool" where
  "hasStringArrayDefault env obj =
     (case getDefaultPropertyInitializer obj of
        None \<Rightarrow> False
      | Some init \<Rightarrow>
          (case init of
             Identifier _ \<Rightarrow>
               (case getIdentifierInit env init of
                  Some valueInit \<Rightarrow> checkStringArrayInit env valueInit
                | None \<Rightarrow> False)
           | _ \<Rightarrow> checkStringArrayInit env init))"

definition resolveIdentifierArrayDefault :: "env \<Rightarrow> member list \<Rightarrow> bool" where
  "resolveIdentifierArrayDefault env obj =
     (case getDefaultPropertyInitializer obj of
        Some (Identifier x) \<Rightarrow>
          (case getIdentifierInit env (Identifier x) of
             Some (ArrayLiteralExpression elems) \<Rightarrow> isStringArray elems
           | Some (AsExpression (ArrayLiteralExpression elems) _) \<Rightarrow> isStringArray elems
           | _ \<Rightarrow> False)
      | _ \<Rightarrow> False)"

definition isArrayExprWithObjects :: "node \<Rightarrow> bool" where
  "isArrayExprWithObjects n =
     (case n of
        ArrayLiteralExpression elems \<Rightarrow>
          elems \<noteq> []
          \<and> list_all (\<lambda>el. case el of ObjectLiteralExpression _ \<Rightarrow> True | _ \<Rightarrow> False) elems
      | _ \<Rightarrow> False)"

text \<open>The value declaration of a symbol, or of the symbol it is an alias of, inside a \<^verbatim>\<open>try\<close>.\<close>

definition declOrAliased :: "symbol \<Rightarrow> decl option" where
  "declOrAliased s =
     (case valueDeclaration s of
        Some d \<Rightarrow> Some d
      | None \<Rightarrow> (case aliased s of Alias d \<Rightarrow> d | NotAlias \<Rightarrow> None))"

definition arrowBodyOf :: "node option \<Rightarrow> node option" where
  "arrowBodyOf init = (case init of Some (ArrowFunction body) \<Rightarrow> Some body | _ \<Rightarrow> None)"

definition resolveFuncBody :: "env \<Rightarrow> node \<Rightarrow> node option" where
  "resolveFuncBody env n =
     (case n of
        Identifier x \<Rightarrow>
          (case Option.bind (symbol_at env n) declOrAliased of
             None \<Rightarrow> None
           | Some (ArrowFunctionDecl body) \<Rightarrow> Some (unwrapNode body)
           | Some d \<Rightarrow>
               (case arrowBodyOf (declInitializer d) of
                  Some body \<Rightarrow> Some (unwrapNode body)
                | None \<Rightarrow> map_option unwrapNode (arrowBodyOf (file_var env (getText env n)))))
      | _ \<Rightarrow> None)"

text \<open>The tests \<^verbatim>\<open>/\[\]$/\<close> and \<^verbatim>\<open>/\bArray<.+>\b/\<close> on the text of a type node.\<close>

definition isWordChar :: "char \<Rightarrow> bool" where
  "isWordChar c =
     (let k = (of_char c :: nat) in
      (48 \<le> k \<and> k \<le> 57) \<or> (65 \<le> k \<and> k \<le> 90) \<or> (97 \<le> k \<and> k \<le> 122) \<or> k = 95)"

definition isLineTerminator :: "char \<Rightarrow> bool" where
  "isLineTerminator c = (c = CHR 0x0A \<or> c = CHR 0x0D)"

definition genericArrayAt :: "string \<Rightarrow> nat \<Rightarrow> bool" where
  "genericArrayAt t i =
     ((i = 0 \<or> \<not> isWordChar (t ! (i - 1)))
      \<and> take 6 (drop i t) = ''Array<''
      \<and> list_ex (\<lambda>j. i + 6 < j \<and> Suc j < length t \<and> t ! j = CHR ''>''
                      \<and> isWordChar (t ! Suc j)
                      \<and> list_all (\<lambda>c. \<not> isLineTerminator c) (take (j - (i + 6)) (drop (i + 6) t)))
           [0..<length t])"

definition isArrayTypeText :: "string \<Rightarrow> bool" where
  "isArrayTypeText t = (suffix ''[]'' t \<or> list_ex (genericArrayAt t) [0..<length t])"

definition hasObjectArrayDefault :: "env \<Rightarrow> member list \<Rightarrow> bool" where
  "hasObjectArrayDefault env obj =
     (case getDefaultPropertyInitializer obj of
        None \<Rightarrow> False
      | Some init \<Rightarrow>
          (case init of
             ArrayLiteralExpression _ \<Rightarrow> isArrayExprWithObjects init
           | AsExpression expr typeText \<Rightarrow>
               (if isArrayTypeText typeText then isArrayExprWithObjects expr else False)
           | CallExpression callee _ \<Rightarrow>
               (case callee of
                  Identifier _ \<Rightarrow>
                    (case resolveFuncBody env callee of
                       Some b \<Rightarrow> isArrayExprWithObjects (unwrapNode b)
                     | None \<Rightarrow> False)
                | _ \<Rightarrow> False)
           | Identifier _ \<Rightarrow>
               (case Option.bind (symbolDeclaration env init) declInitializer of
                  None \<Rightarrow> False
                | Some valueInit \<Rightarrow> isArrayExprWithObjects (stripOneAs valueInit))
           | _ \<Rightarrow> False))"

definition hasComponentProp :: "member list \<Rightarrow> bool" where
  "hasComponentProp obj = (getProperty obj COMPONENT_PROPERTY \<noteq> None)"

definition hasEmptyArrayWithTypeAnnotation :: "env \<Rightarrow> member list \<Rightarrow> bool" where
  "hasEmptyArrayWithTypeAnnotation env obj =
     (case getDefaultPropertyInitializer obj of
        None \<Rightarrow> False
      | Some init \<Rightarrow>
          (case init of
             AsExpression expr typeText \<Rightarrow>
               (case expr of
                  ArrayLiteralExpression elems \<Rightarrow> isArrayTypeText typeText \<and> elems = []
                | _ \<Rightarrow> False)
           | CallExpression callee _ \<Rightarrow>
               (case callee of
                  Identifier _ \<Rightarrow>
                    (case Option.bind (symbol_at env callee) declOrAliased of
                       None \<Rightarrow> False
                     | Some d \<Rightarrow>
                         (case (case d of ArrowFunctionDecl body \<Rightarrow> Some body
                                | _ \<Rightarrow> arrowBodyOf (declInitializer d)) of
                            None \<Rightarrow> False
                          | Some funcBody \<Rightarrow>
                              (case unwrapNode funcBody of
                                 ArrayLiteralExpression elems \<Rightarrow>
                                   elems = []
                                   \<or> list_all (\<lambda>el. case el of ObjectLiteralExpression _ \<Rightarrow> True
                                                     | CallExpression _ _ \<Rightarrow> True | _ \<Rightarrow> False)
                                        elems
                               | _ \<Rightarrow> False)))
                | _ \<Rightarrow> False)
           | _ \<Rightarrow> False))"

definition checkPropertyAccessCustom :: "node \<Rightarrow> bool" where
  "checkPropertyAccessCustom n =
     (case n of PropertyAccessExpression _ name \<Rightarrow> name = OPTION_TYPE_CUSTOM | _ \<Rightarrow> False)"

definition isCustomTypeInNode :: "env \<Rightarrow> node \<Rightarrow> bool" where
  "isCustomTypeInNode env n =
     (checkPropertyAccessCustom n \<or> str_includes (getText env n) OPTION_TYPE_CUSTOM)"

text \<open>\<open>typeNode\<close> is \<^verbatim>\<open>props.typeNode\<close>, the one field of the properties the function reads.\<close>

definition isCustomType :: "env \<Rightarrow> member list \<Rightarrow> node option \<Rightarrow> bool" where
  "isCustomType env valueObj typeNode =
     (if (case getProperty valueObj TYPE_PROPERTY of
            Some (PropertyAssignment _ typeInit) \<Rightarrow> isCustomTypeInNode env typeInit
          | _ \<Rightarrow> False)
      then True
      else case typeNode of Some tn \<Rightarrow> isCustomTypeInNode env tn | None \<Rightarrow> False)"

text \<open>\<^verbatim>\<open>new Set(values).size\<close> is the number of distinct values.\<close>

definition isBooleanEnumValues :: "jsval list \<Rightarrow> bool" where
  "isBooleanEnumValues vals =
     (if length vals \<noteq> BOOLEAN_ENUM_LENGTH then False
      else if length (remdups vals) \<noteq> BOOLEAN_ENUM_LENGTH then False
      else list_all isBoolean vals)"

section \<open>The type of a setting (parser.ts)\<close>

text \<open>\<^verbatim>\<open>z.number().safeParse(v).success\<close> and the schema of an enum value.\<close>

definition zod_number :: "env \<Rightarrow> jsval \<Rightarrow> bool" where
  "zod_number env v =
     (case v of VNum (Finite _) \<Rightarrow> True | VNum NaN \<Rightarrow> False
      | VNum _ \<Rightarrow> zod_accepts_infinity env | _ \<Rightarrow> False)"

definition EnumValueSchema :: "env \<Rightarrow> jsval \<Rightarrow> bool" where
  "EnumValueSchema env v = (isString v \<or> zod_number env v \<or> isBoolean v)"

text \<open>\<^verbatim>\<open>OptionTypeMap[n]\<close>.\<close>

definition optionTypeOf :: "env \<Rightarrow> jsnum \<Rightarrow> string option" where
  "optionTypeOf env n = (case n of Finite q \<Rightarrow> optionTypeMap env q | _ \<Rightarrow> None)"

definition inferNixTypeFromRuntimeDefault :: "jsval \<Rightarrow> nix_type" where
  "inferNixTypeFromRuntimeDefault defaultValue =
     (case defaultValue of
        VUndefined \<Rightarrow> NIX_TYPE_STR
      | VBool _ \<Rightarrow> NIX_TYPE_BOOL
      | VArr _ \<Rightarrow> NIX_TYPE_ATTRS
      | VStr _ \<Rightarrow> NIX_TYPE_STR
      | VNum val \<Rightarrow> (if number_isInteger val then NIX_TYPE_INT else NIX_TYPE_FLOAT)
      | VObj _ \<Rightarrow> NIX_TYPE_ATTRS
      | VNull \<Rightarrow> NIX_TYPE_STR)"

definition extractEnumValueFromDeclaration :: "env \<Rightarrow> decl \<Rightarrow> jsnum option" where
  "extractEnumValueFromDeclaration env valueDecl =
     (case valueDecl of
        EnumMember v initializer \<Rightarrow>
          (case (if zod_number env v then v else VUndefined) of
             VNum n \<Rightarrow> Some n
           | _ \<Rightarrow>
               (case initializer of
                  Some (NumericLiteral x) \<Rightarrow> Some (parse_int env x)
                | _ \<Rightarrow> None))
      | _ \<Rightarrow> None)"

text \<open>
  \<^verbatim>\<open>Maybe.just\<close> of true-myth throws on undefined, and so does \<^verbatim>\<open>map\<close> when its function
  returns undefined: a number that is no key of \<^verbatim>\<open>OptionTypeMap\<close> throws. The property
  access catches it and answers with the name of the property. The result is \<open>None\<close>
  when the function throws, \<open>Some None\<close> for \<^verbatim>\<open>Maybe.nothing()\<close>.
\<close>

definition resolveOptionTypeNameFromNode :: "env \<Rightarrow> node \<Rightarrow> string option option" where
  "resolveOptionTypeNameFromNode env typeNode =
     (case typeNode of
        PropertyAccessExpression _ propName \<Rightarrow>
          (case symbolDeclaration env typeNode of
             None \<Rightarrow> Some (Some propName)
           | Some valueDecl \<Rightarrow>
               (case extractEnumValueFromDeclaration env valueDecl of
                  None \<Rightarrow> Some (Some propName)
                | Some val \<Rightarrow>
                    (case optionTypeOf env val of
                       Some t \<Rightarrow> Some (Some t)
                     | None \<Rightarrow> Some (Some propName))))
      | Identifier _ \<Rightarrow>
          (case symbolDeclaration env typeNode of
             None \<Rightarrow> Some None
           | Some valueDecl \<Rightarrow>
               (case extractEnumValueFromDeclaration env valueDecl of
                  None \<Rightarrow> Some None
                | Some val \<Rightarrow> map_option Some (optionTypeOf env val)))
      | NumericLiteral x \<Rightarrow> map_option Some (optionTypeOf env (parse_int env x))
      | _ \<Rightarrow> Some None)"

definition optionObjectOk :: "env \<Rightarrow> jsval \<Rightarrow> bool" where
  "optionObjectOk env opt =
     (case opt of
        VObj kvs \<Rightarrow>
          (case map_of kvs ''value'' of
             None \<Rightarrow> True
           | Some v \<Rightarrow> v = VUndefined \<or> EnumValueSchema env v)
      | _ \<Rightarrow> False)"

definition optionObjectValue :: "jsval \<Rightarrow> jsval list" where
  "optionObjectValue opt =
     (case opt of
        VObj kvs \<Rightarrow>
          (case map_of kvs ''value'' of
             None \<Rightarrow> []
           | Some v \<Rightarrow> (if v = VUndefined then [] else [v]))
      | _ \<Rightarrow> [])"

definition buildEnumValuesFromOptions :: "env \<Rightarrow> jsval \<Rightarrow> jsval list" where
  "buildEnumValuesFromOptions env options =
     (case options of
        VArr opts \<Rightarrow>
          (let validOptions = filter isPrimitive opts in
           if validOptions \<noteq> [] then validOptions
           else if list_all (optionObjectOk env) opts
           then concat (map optionObjectValue opts)
           else [])
      | _ \<Rightarrow> [])"

definition nixTypeForComponentOrCustom :: "jsval \<Rightarrow> nix_type" where
  "nixTypeForComponentOrCustom defaultValue =
     (case defaultValue of
        VUndefined \<Rightarrow> NIX_TYPE_ATTRS
      | VArr _ \<Rightarrow> NIX_TYPE_STR
      | _ \<Rightarrow> inferNixTypeFromRuntimeDefault defaultValue)"

definition nameHas :: "string \<Rightarrow> string \<Rightarrow> bool" where
  "nameHas n t = (n = t \<or> str_includes n t)"

definition inferTypeFromTypeScriptType :: "env \<Rightarrow> node \<Rightarrow> jsval \<Rightarrow> nix_type option" where
  "inferTypeFromTypeScriptType env typeNode defaultValue =
     (case type_at env typeNode of
        None \<Rightarrow> None
      | Some ty \<Rightarrow>
          (if nameHas (typeName ty) TS_TYPE_STRING then Some NIX_TYPE_STR
           else if nameHas (typeName ty) TS_TYPE_NUMBER then
             Some (case defaultValue of
                     VNum val \<Rightarrow> (if number_isInteger val then NIX_TYPE_INT else NIX_TYPE_FLOAT)
                   | _ \<Rightarrow> NIX_TYPE_INT)
           else if nameHas (typeName ty) TS_TYPE_BOOLEAN then Some NIX_TYPE_BOOL
           else if str_includes (typeName ty) TS_ARRAY_BRACKET_PATTERN
                   \<or> str_includes (typeName ty) TS_ARRAY_GENERIC_PATTERN
           then Some NIX_TYPE_ATTRS
           else if unionTypes ty = [] then None
           else if list_all (\<lambda>n. nameHas n TS_TYPE_STRING) (unionTypes ty) then Some NIX_TYPE_STR
           else if list_all (\<lambda>n. nameHas n TS_TYPE_NUMBER) (unionTypes ty) then Some NIX_TYPE_INT
           else if list_all (\<lambda>n. nameHas n TS_TYPE_BOOLEAN) (unionTypes ty)
           then Some NIX_TYPE_BOOL
           else None))"

text \<open>
  The \<^verbatim>\<open>type\<close> of a raw setting is \<^verbatim>\<open>unknown\<close>: a node, or any other value (undefined when
  the setting has no \<^verbatim>\<open>type\<close> property).
\<close>

datatype raw_type = TypeNode node | TypeValue jsval

record raw_setting =
  rs_type :: raw_type
  rs_default :: jsval
  rs_options :: jsval

record nix_typing =
  nixType :: nix_type
  enumValues :: "jsval list option"

definition tsTypeToNixType :: "env \<Rightarrow> raw_setting \<Rightarrow> nix_typing option" where
  "tsTypeToNixType env setting =
     (case rs_type setting of
        TypeValue ty \<Rightarrow>
          Some
            (if zod_number env ty
                \<and> (case ty of VNum n \<Rightarrow>
                      optionTypeOf env n = Some OPTION_TYPE_COMPONENT
                      \<or> optionTypeOf env n = Some OPTION_TYPE_CUSTOM
                    | _ \<Rightarrow> False)
             then \<lparr>nixType = nixTypeForComponentOrCustom (rs_default setting), enumValues = None\<rparr>
             else
               (let enumVals = buildEnumValuesFromOptions env (rs_options setting) in
                if enumVals \<noteq> [] then
                  (if isBooleanEnumValues enumVals
                   then \<lparr>nixType = NIX_TYPE_BOOL, enumValues = None\<rparr>
                   else \<lparr>nixType = NIX_ENUM_TYPE, enumValues = Some enumVals\<rparr>)
                else \<lparr>nixType = inferNixTypeFromRuntimeDefault (rs_default setting),
                      enumValues = None\<rparr>))
      | TypeNode ty \<Rightarrow>
          Option.bind (resolveOptionTypeNameFromNode env ty) (\<lambda>resolvedName.
            Some
              (case resolvedName of
                 Some name \<Rightarrow>
                   (if name = OPTION_TYPE_BOOLEAN then \<lparr>nixType = NIX_TYPE_BOOL, enumValues = None\<rparr>
                    else if name = OPTION_TYPE_STRING
                    then \<lparr>nixType = NIX_TYPE_STR, enumValues = None\<rparr>
                    else if name = OPTION_TYPE_NUMBER then
                      \<lparr>nixType =
                         (case rs_default setting of
                            VNum val \<Rightarrow>
                              (if number_isInteger val then NIX_TYPE_INT else NIX_TYPE_FLOAT)
                          | _ \<Rightarrow> NIX_TYPE_FLOAT),
                       enumValues = None\<rparr>
                    else if name = OPTION_TYPE_BIGINT
                    then \<lparr>nixType = NIX_TYPE_INT, enumValues = None\<rparr>
                    else if name = OPTION_TYPE_SELECT then
                      (let enumVals = buildEnumValuesFromOptions env (rs_options setting) in
                       if isBooleanEnumValues enumVals
                       then \<lparr>nixType = NIX_TYPE_BOOL, enumValues = None\<rparr>
                       else if enumVals = [] then \<lparr>nixType = NIX_TYPE_STR, enumValues = None\<rparr>
                       else \<lparr>nixType = NIX_ENUM_TYPE, enumValues = Some enumVals\<rparr>)
                    else if name = OPTION_TYPE_SLIDER
                    then \<lparr>nixType = NIX_TYPE_FLOAT, enumValues = None\<rparr>
                    else if name = OPTION_TYPE_COMPONENT \<or> name = OPTION_TYPE_CUSTOM
                    then \<lparr>nixType = nixTypeForComponentOrCustom (rs_default setting),
                          enumValues = None\<rparr>
                    else \<lparr>nixType = inferNixTypeFromRuntimeDefault (rs_default setting),
                          enumValues = None\<rparr>)
               | None \<Rightarrow>
                   (let enumVals = buildEnumValuesFromOptions env (rs_options setting) in
                    case inferTypeFromTypeScriptType env ty (rs_default setting) of
                      Some inferredType \<Rightarrow>
                        \<lparr>nixType = inferredType, enumValues = Some enumVals\<rparr>
                    | None \<Rightarrow>
                        \<lparr>nixType = inferNixTypeFromRuntimeDefault (rs_default setting),
                         enumValues = Some enumVals\<rparr>))))"

section \<open>The default of a setting (default-value-resolution.ts)\<close>

definition BARE_COMPONENT_ALLOWED_PROPS :: "string list" where
  "BARE_COMPONENT_ALLOWED_PROPS =
     [''type'', ''component'', ''description'', ''name'', ''restartNeeded'', ''hidden'',
      ''placeholder'']"

definition bareKey :: "member \<Rightarrow> string" where
  "bareKey m =
     (case (case m of PropertyAssignment pn _ \<Rightarrow> Some pn | MethodDeclaration pn \<Rightarrow> Some pn
            | _ \<Rightarrow> None) of
        Some (IdentifierName s) \<Rightarrow> stripQuotes s
      | Some (StringLiteralName s) \<Rightarrow> s
      | _ \<Rightarrow> [])"

definition isBareComponentSetting :: "member list \<Rightarrow> bool" where
  "isBareComponentSetting obj =
     (list_all (\<lambda>m. bareKey m = [] \<or> bareKey m \<in> set BARE_COMPONENT_ALLOWED_PROPS) obj
      \<and> getProperty obj DEFAULT_PROPERTY = None
      \<and> getProperty obj COMPONENT_PROPERTY \<noteq> None)"

definition okValue :: "(jsval, 'e) result \<Rightarrow> jsval" where
  "okValue r = (case r of Ok v \<Rightarrow> v | Err _ \<Rightarrow> VUndefined)"

definition resolveAttrsDefault :: "env \<Rightarrow> member list \<Rightarrow> jsval option" where
  "resolveAttrsDefault env valueObj =
     (case getProperty valueObj DEFAULT_PROPERTY of
        Some (PropertyAssignment _ (Identifier _)) \<Rightarrow>
          Some (if hasObjectArrayDefault env valueObj then VArr [] else VObj [])
      | Some (PropertyAssignment _ (CallExpression _ _)) \<Rightarrow>
          map_option (\<lambda>r. case r of Ok v \<Rightarrow> v | Err _ \<Rightarrow> VObj [])
            (extractDefaultValue env valueObj)
      | Some (GetAccessor _) \<Rightarrow> Some VNull
      | _ \<Rightarrow> Some (VObj []))"

record ResolvedDefaultValue =
  rd_finalNixType :: nix_type
  rd_defaultValue :: jsval

text \<open>
  Where the default is still undefined on a string type, and again where it is null on
  a nullable string type: an identifier of a custom type or of an array of objects.
\<close>

definition identifierOfAttrs :: "env \<Rightarrow> member list \<Rightarrow> bool" where
  "identifierOfAttrs env valueObj =
     ((case getDefaultPropertyInitializer valueObj of Some (Identifier _) \<Rightarrow> True | _ \<Rightarrow> False)
      \<and> (isCustomType env valueObj None \<or> hasObjectArrayDefault env valueObj))"

definition attrsOfIdentifier :: "env \<Rightarrow> member list \<Rightarrow> jsval" where
  "attrsOfIdentifier env valueObj =
     (if hasObjectArrayDefault env valueObj then VArr [] else VObj [])"

definition resolveDefaultValue ::
  "env \<Rightarrow> member list \<Rightarrow> nix_type \<Rightarrow> jsval \<Rightarrow> jsval list option
     \<Rightarrow> ResolvedDefaultValue option" where
  "resolveDefaultValue env valueObj finalNixType defaultLiteralValue selectEnumValues =
     (if defaultLiteralValue = VUndefined
         \<and> (resolveIdentifierArrayDefault env valueObj \<or> hasStringArrayDefault env valueObj)
      then Some \<lparr>rd_finalNixType = NIX_TYPE_LIST_OF_STR, rd_defaultValue = VArr []\<rparr>
      else
        Option.bind
          (if finalNixType = NIX_TYPE_BOOL \<and> defaultLiteralValue = VUndefined then
             map_option (\<lambda>r. if isDefined r then okValue r else VBool False)
               (extractSelectDefault env valueObj)
           else Some defaultLiteralValue)
          (\<lambda>dv1.
        Option.bind
          (if finalNixType = NIX_ENUM_TYPE \<and> defaultLiteralValue = VUndefined then
             map_option
               (\<lambda>r. if isDefined r then okValue r
                     else case selectEnumValues of Some (v # _) \<Rightarrow> v | _ \<Rightarrow> VUndefined)
               (extractSelectDefault env valueObj)
           else Some dv1)
          (\<lambda>dv2.
        let (ty3, dv3) =
              (if finalNixType = NIX_TYPE_STR \<and> dv2 = VUndefined then
                 (if identifierOfAttrs env valueObj
                  then (NIX_TYPE_ATTRS, attrsOfIdentifier env valueObj)
                  else (NIX_TYPE_NULL_OR_STR, VNull))
               else (finalNixType, dv2));
            isNullOrType = (includes_nullOr finalNixType \<or> includes_nullOr ty3);
            (ty4, dv4) =
              (if isNullOrType \<and> defaultLiteralValue = VUndefined then
                 (if includes_nullOr finalNixType \<and> \<not> includes_nullOr ty3
                  then finalNixType else ty3, VNull)
               else (ty3, dv3))
        in
        Option.bind
          (if finalNixType = NIX_TYPE_ATTRS \<and> dv4 = VUndefined
           then resolveAttrsDefault env valueObj else Some dv4)
          (\<lambda>dv5.
        Option.bind
          (if finalNixType = NIX_TYPE_ATTRS \<and> dv5 = VUndefined then
             (if isBareComponentSetting valueObj then Some (VObj [])
              else resolveAttrsDefault env valueObj)
           else Some dv5)
          (\<lambda>dv6.
        Some (if finalNixType = NIX_TYPE_NULL_OR_STR \<and> dv6 = VNull
                 \<and> identifierOfAttrs env valueObj
              then \<lparr>rd_finalNixType = NIX_TYPE_ATTRS, rd_defaultValue = attrsOfIdentifier env valueObj\<rparr>
              else \<lparr>rd_finalNixType = ty4, rd_defaultValue = dv6\<rparr>))))))"

section \<open>The classifier (type-inference/index.ts)\<close>

text \<open>
  Of the properties of a setting the classifier reads \<open>typeNode\<close> and
  \<open>defaultLiteralValue\<close>, which are arguments here.
\<close>

record Classification =
  c_nixType :: nix_type
  c_defaultValue :: jsval

definition classifyComponentOrCustom ::
  "env \<Rightarrow> member list \<Rightarrow> nix_type \<Rightarrow> jsval \<Rightarrow> Classification" where
  "classifyComponentOrCustom env valueObj baseType dflt =
     (case getProperty valueObj DEFAULT_PROPERTY of
        Some (GetAccessor _) \<Rightarrow> \<lparr>c_nixType = NIX_TYPE_NULL_OR_STR, c_defaultValue = VNull\<rparr>
      | _ \<Rightarrow>
          (let init = getDefaultPropertyInitializer valueObj in
           if (case init of Some (StringLiteral _) \<Rightarrow> True | _ \<Rightarrow> False)
           then \<lparr>c_nixType = NIX_TYPE_STR, c_defaultValue = dflt\<rparr>
           else if isString dflt then \<lparr>c_nixType = NIX_TYPE_STR, c_defaultValue = dflt\<rparr>
           else if (case init of Some (Identifier _) \<Rightarrow> True | _ \<Rightarrow> False)
                   \<and> isCustomType env valueObj None
           then \<lparr>c_nixType = NIX_TYPE_ATTRS, c_defaultValue = dflt\<rparr>
           else if baseType = NIX_TYPE_ATTRS \<or> baseType = NIX_TYPE_LIST_OF_ATTRS
                   \<or> baseType = NIX_TYPE_LIST_OF_STR
           then \<lparr>c_nixType = baseType, c_defaultValue = dflt\<rparr>
           else if dflt = VUndefined \<or> dflt = VNull \<or> isObject dflt
           then \<lparr>c_nixType = NIX_TYPE_ATTRS, c_defaultValue = dflt\<rparr>
           else \<lparr>c_nixType = baseType, c_defaultValue = dflt\<rparr>))"

definition typeNodeHas :: "env \<Rightarrow> node option \<Rightarrow> string \<Rightarrow> bool" where
  "typeNodeHas env typeNode t =
     (case typeNode of Some tn \<Rightarrow> str_includes (getText env tn) t | None \<Rightarrow> False)"

definition classifySetting ::
  "env \<Rightarrow> member list \<Rightarrow> node option \<Rightarrow> jsval \<Rightarrow> nix_type \<Rightarrow> Classification" where
  "classifySetting env valueObj typeNode defaultLiteralValue baseType =
     (let isComponentOrCustom =
            (typeNodeHas env typeNode OPTION_TYPE_COMPONENT
             \<or> typeNodeHas env typeNode OPTION_TYPE_CUSTOM);
          hasStringArray = hasStringArrayDefault env valueObj;
          hasIdentifierStringArray =
            (defaultLiteralValue = VUndefined \<and> resolveIdentifierArrayDefault env valueObj);
          init = getDefaultPropertyInitializer valueObj
      in
      if hasStringArray \<or> hasIdentifierStringArray
      then \<lparr>c_nixType = NIX_TYPE_LIST_OF_STR, c_defaultValue = VArr []\<rparr>
      else if hasObjectArrayDefault env valueObj
              \<and> \<not> (case init of Some (Identifier _) \<Rightarrow> True | _ \<Rightarrow> False)
      then \<lparr>c_nixType = NIX_TYPE_LIST_OF_ATTRS, c_defaultValue = VArr []\<rparr>
      else if hasEmptyArrayWithTypeAnnotation env valueObj then
        (if typeNodeHas env typeNode OPTION_TYPE_CUSTOM
         then \<lparr>c_nixType = NIX_TYPE_LIST_OF_ATTRS, c_defaultValue = VArr []\<rparr>
         else \<lparr>c_nixType = NIX_TYPE_LIST_OF_STR, c_defaultValue = VArr []\<rparr>)
      else if init = Some (ArrayLiteralExpression [])
      then \<lparr>c_nixType = NIX_TYPE_LIST_OF_STR, c_defaultValue = VArr []\<rparr>
      else if isComponentOrCustom
      then classifyComponentOrCustom env valueObj baseType defaultLiteralValue
      else \<lparr>c_nixType = baseType, c_defaultValue = defaultLiteralValue\<rparr>)"

record TypeInferenceResult =
  ti_finalNixType :: nix_type
  ti_selectEnumValues :: "jsval list option"
  ti_defaultValue :: jsval

definition inferNixTypeAndEnumValues ::
  "env \<Rightarrow> member list \<Rightarrow> node option \<Rightarrow> jsval \<Rightarrow> raw_setting \<Rightarrow> TypeInferenceResult option"
  where
  "inferNixTypeAndEnumValues env valueObj typeNode defaultLiteralValue rawSetting =
     Option.bind (tsTypeToNixType env rawSetting) (\<lambda>base.
     Option.bind (extractSelectOptions env valueObj) (\<lambda>astEnumResult.
       let astEnumLiterals = (case astEnumResult of Ok r \<Rightarrow> opt_values r | Err _ \<Rightarrow> []);
           hasAstEnumValues = (astEnumLiterals \<noteq> []);
           selectEnumValues =
             (case enumValues base of
                Some (v # vs) \<Rightarrow> Some (v # vs)
              | _ \<Rightarrow> (if hasAstEnumValues then Some astEnumLiterals else None));
           isBooleanEnum =
             (case selectEnumValues of
                None \<Rightarrow> False
              | Some vals \<Rightarrow>
                  length vals = BOOLEAN_ENUM_LENGTH \<and> list_all isBoolean vals
                  \<and> length (remdups vals) = BOOLEAN_ENUM_LENGTH)
       in
       Some (if isBooleanEnum
             then \<lparr>ti_finalNixType = NIX_TYPE_BOOL, ti_selectEnumValues = None,
                   ti_defaultValue = defaultLiteralValue\<rparr>
             else if selectEnumValues \<noteq> None
             then \<lparr>ti_finalNixType = NIX_ENUM_TYPE, ti_selectEnumValues = selectEnumValues,
                   ti_defaultValue = defaultLiteralValue\<rparr>
             else
               (let classification =
                      classifySetting env valueObj typeNode defaultLiteralValue (nixType base)
                in \<lparr>ti_finalNixType = c_nixType classification,
                     ti_selectEnumValues = selectEnumValues,
                     ti_defaultValue =
                       (if c_defaultValue classification = VUndefined
                           \<or> c_defaultValue classification = VNull
                        then defaultLiteralValue
                        else c_defaultValue classification)\<rparr>))))"

section \<open>The settings tree (settings-extractor.ts)\<close>

fun extractLiteralValue :: "env \<Rightarrow> node \<Rightarrow> jsval option" where
  "extractLiteralValue env (StringLiteral s) = Some (VStr s)"
| "extractLiteralValue env (NumericLiteral x) = Some (VNum x)"
| "extractLiteralValue env (BigIntLiteral raw) = Some (VStr (bigIntText raw))"
| "extractLiteralValue env TrueKeyword = Some (VBool True)"
| "extractLiteralValue env FalseKeyword = Some (VBool False)"
| "extractLiteralValue env (ArrayLiteralExpression elems) =
     map_option VArr (those (map (extractLiteralValue env) elems))"
| "extractLiteralValue env (PropertyAccessExpression b m) =
     tryEvaluate env (PropertyAccessExpression b m)"
| "extractLiteralValue env n = Some VUndefined"

record properties =
  p_typeNode :: "node option"
  p_description :: "string option"
  p_placeholder :: "string option"
  p_restartNeeded :: bool
  p_hidden :: bool
  p_defaultLiteralValue :: jsval

text \<open>The test both the filter and \<^verbatim>\<open>extractProperties\<close> make of the \<^verbatim>\<open>hidden\<close> property.\<close>

definition hiddenMarker :: "member list \<Rightarrow> bool" where
  "hiddenMarker valueObj =
     (case getProperty valueObj ''hidden'' of
        Some (PropertyAssignment _ TrueKeyword) \<Rightarrow> True
      | _ \<Rightarrow> False)"

definition extractProperties :: "env \<Rightarrow> member list \<Rightarrow> properties option" where
  "extractProperties env valueObj =
     map_option
       (\<lambda>dflt.
          \<lparr>p_typeNode = getPropertyInitializer valueObj ''type'',
           p_description =
             (case extractStringLiteralValue valueObj DESCRIPTION_PROPERTY of
                Some d \<Rightarrow> Some d
              | None \<Rightarrow> extractStringLiteralValue valueObj NAME_PROPERTY),
           p_placeholder = extractStringLiteralValue valueObj ''placeholder'',
           p_restartNeeded =
             (case getPropertyInitializer valueObj ''restartNeeded'' of
                Some init \<Rightarrow> init = TrueKeyword
              | None \<Rightarrow> False),
           p_hidden = hiddenMarker valueObj,
           p_defaultLiteralValue = dflt\<rparr>)
       (case getPropertyInitializer valueObj ''default'' of
          None \<Rightarrow> Some VUndefined
        | Some init \<Rightarrow> extractLiteralValue env init)"

record PluginSetting =
  ps_name :: string
  ps_type :: nix_type
  ps_description :: "string option"
  ps_default :: jsval
  ps_enumValues :: "jsval list option"
  ps_enumLabels :: "labels option"
  ps_example :: "string option"
  ps_hidden :: "bool option"
  ps_restartNeeded :: bool

definition buildPluginSetting ::
  "string \<Rightarrow> nix_type \<Rightarrow> string option \<Rightarrow> jsval \<Rightarrow> jsval list option \<Rightarrow> labels option
     \<Rightarrow> string option \<Rightarrow> bool \<Rightarrow> bool \<Rightarrow> PluginSetting" where
  "buildPluginSetting key finalNixType description dflt selectEnumValues enumLabels
       placeholder hidden restartNeeded =
     \<lparr>ps_name = key,
      ps_type = finalNixType,
      ps_description =
        (case description of
           None \<Rightarrow> None
         | Some d \<Rightarrow>
             (if d = [] then None
              else Some (if restartNeeded then d @ '' (restart required)'' else d))),
      ps_default = dflt,
      ps_enumValues =
        (case selectEnumValues of Some (v # vs) \<Rightarrow> Some (v # vs) | _ \<Rightarrow> None),
      ps_enumLabels =
        (case enumLabels of Some (l # ls) \<Rightarrow> Some (l # ls) | _ \<Rightarrow> None),
      ps_example = placeholder,
      ps_hidden = (if hidden then Some True else None),
      ps_restartNeeded = restartNeeded\<rparr>"

definition isSettingsGroup :: "(propname \<times> node) list \<Rightarrow> bool" where
  "isSettingsGroup nestedProperties =
     (let hasTypeProperty =
            list_ex (\<lambda>(pn, _). propname_text pn = ''type'' \<or> propname_text pn = ''description'')
              nestedProperties;
          hasNestedSettings =
            list_ex (\<lambda>(_, init). case init of ObjectLiteralExpression _ \<Rightarrow> True | _ \<Rightarrow> False)
              nestedProperties
      in hasNestedSettings \<and> \<not> hasTypeProperty)"

text \<open>A \<^verbatim>\<open>PluginSetting\<close> or a \<^verbatim>\<open>PluginConfig\<close> (a group: its name and its settings).\<close>

datatype entry = SettingEntry PluginSetting | GroupEntry string "(string \<times> entry) list"

text \<open>
  The body of the \<^verbatim>\<open>reduce\<close> for a property that is no group: \<open>None\<close> inside when the
  accumulator is returned as it is.
\<close>

definition leafSetting :: "env \<Rightarrow> bool \<Rightarrow> string \<Rightarrow> member list \<Rightarrow> PluginSetting option option"
  where
  "leafSetting env skipHiddenCheck key valueObj =
     Option.bind (extractProperties env valueObj) (\<lambda>props.
       if \<not> skipHiddenCheck \<and> p_hidden props then Some None
       else
         Option.bind (extractSelectOptions env valueObj) (\<lambda>optionsResult.
           let extractedOptions =
                 (case optionsResult of Ok r \<Rightarrow> VArr (opt_values r) | Err _ \<Rightarrow> VUndefined);
               extractedLabels =
                 (case optionsResult of Ok r \<Rightarrow> Some (opt_labels r) | Err _ \<Rightarrow> None);
               rawSetting =
                 \<lparr>rs_type = (case p_typeNode props of Some tn \<Rightarrow> TypeNode tn
                              | None \<Rightarrow> TypeValue VUndefined),
                  rs_default = p_defaultLiteralValue props,
                  rs_options = extractedOptions\<rparr>
           in
           Option.bind (tsTypeToNixType env rawSetting) (\<lambda>typing.
           Option.bind
             (resolveDefaultValue env valueObj (nixType typing) (p_defaultLiteralValue props)
                (enumValues typing))
             (\<lambda>resolved.
                Some (Some (buildPluginSetting key (rd_finalNixType resolved)
                              (p_description props) (rd_defaultValue resolved)
                              (enumValues typing) extractedLabels (p_placeholder props)
                              (p_hidden props) (p_restartNeeded props)))))))"

text \<open>The predicate of the \<^verbatim>\<open>filter\<close>.\<close>

definition keepProperty :: "bool \<Rightarrow> propname \<times> node \<Rightarrow> bool" where
  "keepProperty skipHiddenCheck pa =
     (case pa of
        (pn, ObjectLiteralExpression valueObj) \<Rightarrow>
          propname_text pn \<noteq> [] \<and> (skipHiddenCheck \<or> \<not> hiddenMarker valueObj)
      | _ \<Rightarrow> False)"

lemma size_iteratePropertyAssignments:
  "size_list (\<lambda>pa. size (snd pa)) (iteratePropertyAssignments ms) \<le> size_list size ms"
  by (induction ms) (auto simp: iteratePropertyAssignments_def split: member.split)

lemma size_list_filter: "size_list f (filter P xs) \<le> size_list f xs"
  by (induction xs) auto

text \<open>
  The \<^verbatim>\<open>reduce\<close> over the properties the filter keeps, with its accumulator; the
  settings of a group are \<^verbatim>\<open>extractSettingsFromPropertyIterable\<close> of its properties: the
  filter, and the \<^verbatim>\<open>reduce\<close> from an empty accumulator. \<^verbatim>\<open>asKindOrThrow\<close> throws on a property
  that is no object literal, which the filter never keeps.
\<close>

function settingsReduce ::
  "env \<Rightarrow> bool \<Rightarrow> (propname \<times> node) list \<Rightarrow> (string \<times> entry) list
     \<Rightarrow> (string \<times> entry) list option" where
  "settingsReduce env skipHiddenCheck [] acc = Some acc"
| "settingsReduce env skipHiddenCheck ((pn, init) # rest) acc =
     (case init of
        ObjectLiteralExpression valueObj \<Rightarrow>
          (let key = propname_text pn;
               nestedProperties = iteratePropertyAssignments valueObj
           in
           if isSettingsGroup nestedProperties then
             Option.bind
               (settingsReduce env skipHiddenCheck
                  (filter (keepProperty skipHiddenCheck) nestedProperties) [])
               (\<lambda>settings.
               settingsReduce env skipHiddenCheck rest
                 (rec_set key (GroupEntry key settings) acc))
           else
             Option.bind (leafSetting env skipHiddenCheck key valueObj) (\<lambda>r.
               settingsReduce env skipHiddenCheck rest
                 (case r of None \<Rightarrow> acc | Some st \<Rightarrow> rec_set key (SettingEntry st) acc)))
      | _ \<Rightarrow> None)"
  by pat_completeness auto
termination
proof (relation "measure (\<lambda>(env, skip, props, acc). size_list (\<lambda>pa. size (snd pa)) props)")
  show "wf (measure (\<lambda>(env, skip, props, acc). size_list (\<lambda>pa. size (snd pa)) props))"
    by simp
next
  fix env :: env and skipHiddenCheck :: bool and pn :: propname and init :: node
    and rest :: "(propname \<times> node) list" and acc :: "(string \<times> entry) list"
    and valueObj :: "member list" and key :: string
    and nestedProperties :: "(propname \<times> node) list"
  assume "init = ObjectLiteralExpression valueObj"
    and "nestedProperties = iteratePropertyAssignments valueObj"
  then show "((env, skipHiddenCheck, filter (keepProperty skipHiddenCheck) nestedProperties, []),
              (env, skipHiddenCheck, (pn, init) # rest, acc))
             \<in> measure (\<lambda>(env, skip, props, acc). size_list (\<lambda>pa. size (snd pa)) props)"
    using size_iteratePropertyAssignments [of valueObj]
      size_list_filter [of "\<lambda>pa. size (snd pa)" "keepProperty skipHiddenCheck"
        "iteratePropertyAssignments valueObj"]
    by simp
qed auto

definition extractSettingsFromPropertyIterable ::
  "env \<Rightarrow> bool \<Rightarrow> (propname \<times> node) list \<Rightarrow> (string \<times> entry) list option" where
  "extractSettingsFromPropertyIterable env skipHiddenCheck props =
     settingsReduce env skipHiddenCheck (filter (keepProperty skipHiddenCheck) props) []"

definition extractSettingsFromObject ::
  "env \<Rightarrow> bool \<Rightarrow> member list \<Rightarrow> (string \<times> entry) list option" where
  "extractSettingsFromObject env skipHiddenCheck objExpr =
     extractSettingsFromPropertyIterable env skipHiddenCheck (iteratePropertyAssignments objExpr)"

definition extractSettingsFromCall ::
  "env \<Rightarrow> bool \<Rightarrow> node option \<Rightarrow> (string \<times> entry) list option" where
  "extractSettingsFromCall env skipHiddenCheck callExpr =
     (case callExpr of
        Some (CallExpression _ (ObjectLiteralExpression arg # _)) \<Rightarrow>
          extractSettingsFromObject env skipHiddenCheck arg
      | _ \<Rightarrow> Some [])"

section \<open>Programs for the examples\<close>

text \<open>
  An arithmetic that is exact where that of doubles is (sums, differences and products
  of small integers), and an environment in which no name resolves.
\<close>

definition exact_arith :: "optoken \<Rightarrow> jsnum \<Rightarrow> jsnum \<Rightarrow> jsnum" where
  "exact_arith opr a b =
     (case (opr, a, b) of
        (PlusToken, Finite x, Finite y) \<Rightarrow> Finite (x + y)
      | (MinusToken, Finite x, Finite y) \<Rightarrow> Finite (x - y)
      | (AsteriskToken, Finite x, Finite y) \<Rightarrow> Finite (x * y)
      | _ \<Rightarrow> NaN)"

definition static_env :: env where
  "static_env =
     \<lparr>symbol_at = (\<lambda>_. None), file_var = (\<lambda>_. None), text_of = (\<lambda>_. []),
      type_at = (\<lambda>_. None), num_op = exact_arith, parse_int = (\<lambda>n. n),
      number_text = (\<lambda>_. []), optionTypeMap = (\<lambda>_. None), zod_accepts_infinity = False,
      string_array_type = (\<lambda>_. False), get_function_name = ''get''\<rparr>"

text \<open>\<^verbatim>\<open>const FOO = 1\<close>.\<close>

definition foo_env :: env where
  "foo_env = static_env\<lparr>symbol_at := (\<lambda>n. if n = Identifier ''FOO''
       then Some (Symbol (Some (VariableDeclaration (Some (NumericLiteral (Finite 1))))) NotAlias)
       else None)\<rparr>"

text \<open>The annotations \<^verbatim>\<open>OptionType.NUMBER\<close>, \<^verbatim>\<open>OptionType.STRING\<close>, \<^verbatim>\<open>OptionType.CUSTOM\<close>.\<close>

definition numberType :: node where
  "numberType = PropertyAccessExpression (Identifier ''OptionType'') ''NUMBER''"

definition stringType :: node where
  "stringType = PropertyAccessExpression (Identifier ''OptionType'') ''STRING''"

definition customType :: node where
  "customType = PropertyAccessExpression (Identifier ''OptionType'') ''CUSTOM''"

text \<open>\<^verbatim>\<open>{ type: OptionType.STRING, options: [{ value: true }, { value: false }] }\<close>.\<close>

definition bool_select :: "member list" where
  "bool_select =
     [PropertyAssignment (IdentifierName ''type'') stringType,
      PropertyAssignment (IdentifierName ''options'')
        (ArrayLiteralExpression
           [ObjectLiteralExpression [PropertyAssignment (IdentifierName ''value'') TrueKeyword],
            ObjectLiteralExpression [PropertyAssignment (IdentifierName ''value'') FalseKeyword]])]"

text \<open>The same options under an annotation that does not resolve, \<^verbatim>\<open>type: kind\<close>.\<close>

definition bool_unresolved :: "member list" where
  "bool_unresolved =
     [PropertyAssignment (IdentifierName ''type'') (Identifier ''kind''),
      PropertyAssignment (IdentifierName ''options'')
        (ArrayLiteralExpression
           [ObjectLiteralExpression [PropertyAssignment (IdentifierName ''value'') TrueKeyword],
            ObjectLiteralExpression [PropertyAssignment (IdentifierName ''value'') FalseKeyword]])]"

text \<open>
  \<^verbatim>\<open>{ type: OptionType.STRING, default: ["a", "b"] }\<close>, the same setting with
  \<^verbatim>\<open>default: TAGS\<close>, and \<^verbatim>\<open>const TAGS = ["a", "b"]\<close>.
\<close>

definition string_array_setting :: "member list" where
  "string_array_setting =
     [PropertyAssignment (IdentifierName ''type'') stringType,
      PropertyAssignment (IdentifierName ''default'')
        (ArrayLiteralExpression [StringLiteral ''a'', StringLiteral ''b''])]"

definition string_array_by_name :: "member list" where
  "string_array_by_name =
     [PropertyAssignment (IdentifierName ''type'') stringType,
      PropertyAssignment (IdentifierName ''default'') (Identifier ''TAGS'')]"

definition tags_env :: env where
  "tags_env = static_env\<lparr>symbol_at := (\<lambda>n. if n = Identifier ''TAGS''
       then Some (Symbol (Some (VariableDeclaration
              (Some (ArrayLiteralExpression [StringLiteral ''a'', StringLiteral ''b''])))) NotAlias)
       else None)\<rparr>"

text \<open>\<^verbatim>\<open>{ type: OptionType.CUSTOM, get default() { ... } }\<close>.\<close>

definition getter_setting :: "member list" where
  "getter_setting =
     [PropertyAssignment (IdentifierName ''type'') customType,
      GetAccessor (IdentifierName ''default'')]"

text \<open>
  \<^verbatim>\<open>{ options: choices }\<close> and \<^verbatim>\<open>{ options: choices() }\<close>.
\<close>

definition options_by_name :: "member list" where
  "options_by_name = [PropertyAssignment (IdentifierName ''options'') (Identifier ''choices'')]"

definition options_by_call :: "member list" where
  "options_by_call =
     [PropertyAssignment (IdentifierName ''options'') (CallExpression (Identifier ''choices'') [])]"

text \<open>
  \<^verbatim>\<open>{ options: [f(), g()] }\<close>, \<^verbatim>\<open>{ options: [{ label: "x" }] }\<close> and \<^verbatim>\<open>{ options: [] }\<close>.
\<close>

definition call_elements_options :: "member list" where
  "call_elements_options =
     [PropertyAssignment (IdentifierName ''options'')
        (ArrayLiteralExpression
           [CallExpression (Identifier ''f'') [], CallExpression (Identifier ''g'') []])]"

definition label_only_options :: "member list" where
  "label_only_options =
     [PropertyAssignment (IdentifierName ''options'')
        (ArrayLiteralExpression
           [ObjectLiteralExpression
              [PropertyAssignment (IdentifierName ''label'') (StringLiteral ''x'')]])]"

definition empty_options :: "member list" where
  "empty_options = [PropertyAssignment (IdentifierName ''options'') (ArrayLiteralExpression [])]"



text \<open>
  The options \<^verbatim>\<open>{ value: "a" }\<close>, \<^verbatim>\<open>{ value: "b", default: true }\<close> and
  \<^verbatim>\<open>{ value: "c", default: true }\<close>, and select settings with them: one whose default is
  \<^verbatim>\<open>TAGS\<close>, one with the options \<^verbatim>\<open>[a, ...more, b, c]\<close>, one with \<^verbatim>\<open>[a, ...more]\<close>, and one
  with \<^verbatim>\<open>[a, b] as const\<close>.
\<close>

definition selectType :: node where
  "selectType = PropertyAccessExpression (Identifier ''OptionType'') ''SELECT''"

definition option_a :: node where
  "option_a = ObjectLiteralExpression [PropertyAssignment (IdentifierName ''value'') (StringLiteral ''a'')]"

definition option_b_marked :: node where
  "option_b_marked = ObjectLiteralExpression
     [PropertyAssignment (IdentifierName ''value'') (StringLiteral ''b''),
      PropertyAssignment (IdentifierName ''default'') TrueKeyword]"

definition option_c_marked :: node where
  "option_c_marked = ObjectLiteralExpression
     [PropertyAssignment (IdentifierName ''value'') (StringLiteral ''c''),
      PropertyAssignment (IdentifierName ''default'') TrueKeyword]"




definition select_as_const :: "member list" where
  "select_as_const =
     [PropertyAssignment (IdentifierName ''type'') selectType,
      PropertyAssignment (IdentifierName ''options'')
        (AsExpression (ArrayLiteralExpression [option_a, option_b_marked]) ''const'')]"

text \<open>
  \<^verbatim>\<open>{ secret: { type: OptionType.STRING, hidden: true }, shown: { type: OptionType.STRING } }\<close>
  and the settings extracted from its two properties.
\<close>

definition hidden_example :: "(propname \<times> node) list" where
  "hidden_example =
     [(IdentifierName ''secret'',
       ObjectLiteralExpression
         [PropertyAssignment (IdentifierName ''type'') stringType,
          PropertyAssignment (IdentifierName ''hidden'') TrueKeyword]),
      (IdentifierName ''shown'',
       ObjectLiteralExpression [PropertyAssignment (IdentifierName ''type'') stringType])]"

definition shown_setting :: PluginSetting where
  "shown_setting =
     \<lparr>ps_name = ''shown'', ps_type = NIX_TYPE_NULL_OR_STR, ps_description = None,
      ps_default = VNull, ps_enumValues = None, ps_enumLabels = None, ps_example = None,
      ps_hidden = None, ps_restartNeeded = False\<rparr>"

definition secret_setting :: PluginSetting where
  "secret_setting =
     \<lparr>ps_name = ''secret'', ps_type = NIX_TYPE_NULL_OR_STR, ps_description = None,
      ps_default = VNull, ps_enumValues = None, ps_enumLabels = None, ps_example = None,
      ps_hidden = Some True, ps_restartNeeded = False\<rparr>"

section \<open>Notions the claims are stated with\<close>

text \<open>The initializer of the options property, unwrapped.\<close>

definition optionsInitializer :: "member list \<Rightarrow> node option" where
  "optionsInitializer obj =
     (case getProperty obj OPTIONS_PROPERTY of
        Some (PropertyAssignment _ initializer) \<Rightarrow> Some (unwrapNode initializer)
      | _ \<Rightarrow> None)"

definition isArrayLiteral :: "node \<Rightarrow> bool" where
  "isArrayLiteral n = (case n of ArrayLiteralExpression _ \<Rightarrow> True | _ \<Rightarrow> False)"

definition isCallExpression :: "node \<Rightarrow> bool" where
  "isCallExpression n = (case n of CallExpression _ _ \<Rightarrow> True | _ \<Rightarrow> False)"

text \<open>The values one element of a literal array of options yields.\<close>

definition yieldedValues :: "env \<Rightarrow> node \<Rightarrow> jsval list option" where
  "yieldedValues env element =
     (case element of
        ObjectLiteralExpression obj \<Rightarrow>
          map_option (\<lambda>r. case r of Ok (v, _) \<Rightarrow> [v] | Err _ \<Rightarrow> [])
            (extractValueAndLabel env obj)
      | SpreadElement expr \<Rightarrow>
          map_option (\<lambda>r. case r of Ok (vs, _) \<Rightarrow> vs | Err _ \<Rightarrow> [])
            (extractFromSpreadElement env expr)
      | _ \<Rightarrow> Some [])"

definition resultValues :: "SelectOptionsResult \<Rightarrow> (jsval list, extraction_error) result" where
  "resultValues r = (case r of Ok opts \<Rightarrow> Ok (opt_values opts) | Err e \<Rightarrow> Err e)"

text \<open>An option element that carries the marker \<^verbatim>\<open>default: true\<close>.\<close>

definition carriesMarker :: "member list \<Rightarrow> bool" where
  "carriesMarker obj =
     (case getPropertyAssignment obj DEFAULT_PROPERTY of
        Some (_, TrueKeyword) \<Rightarrow> True
      | _ \<Rightarrow> False)"



text \<open>
  What the \<^verbatim>\<open>reduce\<close> computes for one property and stores under its name: a group, a
  setting, or nothing.
\<close>

definition entryOf :: "env \<Rightarrow> bool \<Rightarrow> propname \<times> node \<Rightarrow> entry option option" where
  "entryOf env skipHiddenCheck pa =
     (case pa of
        (pn, ObjectLiteralExpression valueObj) \<Rightarrow>
          (if isSettingsGroup (iteratePropertyAssignments valueObj) then
             map_option (\<lambda>settings. Some (GroupEntry (propname_text pn) settings))
               (extractSettingsFromPropertyIterable env skipHiddenCheck
                  (iteratePropertyAssignments valueObj))
           else
             map_option (map_option SettingEntry)
               (leafSetting env skipHiddenCheck (propname_text pn) valueObj))
      | _ \<Rightarrow> None)"

text \<open>A property whose value is an object literal with the marker \<^verbatim>\<open>hidden: true\<close>.\<close>

definition hiddenProperty :: "propname \<times> node \<Rightarrow> bool" where
  "hiddenProperty pa =
     (case pa of (_, ObjectLiteralExpression valueObj) \<Rightarrow> hiddenMarker valueObj | _ \<Rightarrow> False)"

section \<open>The evaluator, node kind by node kind\<close>

lemma evaluate_literal:
  "isLiteralNode n \<Longrightarrow> evaluate env n = Some (evaluateLiteral n)"
  by (subst evaluate.simps) simp

lemma resolveIdentifierWithFallback_wrapped:
  "isWrappedNode n \<Longrightarrow> resolveIdentifierWithFallback env n = None"
  by (cases n) (simp_all add: isWrappedNode_def resolveIdentifierWithFallback_def)

lemma evaluate_wrapped:
  "\<not> isLiteralNode n \<Longrightarrow> isWrappedNode n \<Longrightarrow> evaluate env n = Some (Err CannotUnwrapNode)"
  by (subst evaluate.simps) (simp add: resolveIdentifierWithFallback_wrapped)

lemma evaluate_Identifier:
  "evaluate env (Identifier x) =
     (case resolveIdentifierWithFallback env (Identifier x) of
        Some resolved \<Rightarrow>
          (if resolved \<noteq> Identifier x then evaluate env resolved
           else Some (Err CannotResolveIdentifier))
      | None \<Rightarrow> Some (Err CannotResolveIdentifier))"
  by (subst evaluate.simps) (simp add: isLiteralNode_def isLiteralKind_def isWrappedNode_def)

lemma evaluate_PropertyAccessExpression:
  "evaluate env (PropertyAccessExpression b m) =
     evaluatePropertyAccess env (PropertyAccessExpression b m) (evaluate env)"
  by (subst evaluate.simps) (simp add: isLiteralNode_def isLiteralKind_def isWrappedNode_def)

lemma evaluate_BinaryExpression:
  "evaluate env (BinaryExpression l opr r) =
     (if opr \<in> set BINARY_OPERATORS
      then evaluateBinaryExpression env (BinaryExpression l opr r) (evaluate env)
      else Some (Err CannotEvaluateNode))"
  by (subst evaluate.simps)
     (simp add: isLiteralNode_def isLiteralKind_def isWrappedNode_def
        isSupportedBinaryExpression_def)

lemma evaluate_other:
  "\<not> isLiteralNode n \<Longrightarrow> \<not> isWrappedNode n \<Longrightarrow> (case n of Identifier _ \<Rightarrow> False | PropertyAccessExpression _ _ \<Rightarrow> False | BinaryExpression _ _ _ \<Rightarrow> False | _ \<Rightarrow> True)
   \<Longrightarrow> evaluate env n = Some (Err CannotEvaluateNode)"
  by (subst evaluate.simps) (auto simp: isSupportedBinaryExpression_def split: node.splits)

lemma evaluateBinaryExpression_returns:
  "evaluate env l = Some lr \<Longrightarrow> evaluate env r = Some rr \<Longrightarrow>
   evaluateBinaryExpression env (BinaryExpression l opr r) (evaluate env) =
     Some (case lr of
             Err e \<Rightarrow> Err e
           | Ok left \<Rightarrow>
               (case rr of
                  Err e \<Rightarrow> Err e
                | Ok right \<Rightarrow>
                    (case (left, right) of
                       (VNum a, VNum b) \<Rightarrow>
                         (if opr \<in> set BINARY_OPERATORS then Ok (VNum (num_op env opr a b))
                          else Err UnsupportedBinaryOperator)
                     | _ \<Rightarrow> Err OperandsMustBeNumbers)))"
  by (simp add: evaluateBinaryExpression_def)

lemma evaluateBinaryExpression_diverges:
  "evaluate env l = None \<or> evaluate env r = None \<Longrightarrow>
   evaluateBinaryExpression env (BinaryExpression l opr r) (evaluate env) = None"
  by (auto simp: evaluateBinaryExpression_def Option.bind_eq_None_conv)

lemma set_BINARY_OPERATORS:
  "set BINARY_OPERATORS =
     {BarToken, AmpersandToken, CaretToken, LessThanLessThanToken,
      GreaterThanGreaterThanToken, GreaterThanGreaterThanGreaterThanToken,
      PlusToken, MinusToken, AsteriskToken, SlashToken, PercentToken}"
  by (simp add: BINARY_OPERATORS_def)

lemma binary_ok_iff:
  "evaluate env (BinaryExpression l opr r) = Some (Ok v) \<longleftrightarrow>
     opr \<in> set BINARY_OPERATORS
     \<and> (\<exists>a b. evaluate env l = Some (Ok (VNum a)) \<and> evaluate env r = Some (Ok (VNum b))
                \<and> v = VNum (num_op env opr a b))"
proof (cases "opr \<in> set BINARY_OPERATORS")
  case False
  then show ?thesis by (simp add: evaluate_BinaryExpression)
next
  case supported: True
  show ?thesis
  proof (cases "evaluate env l")
    case None
    then show ?thesis
      using supported by (simp add: evaluate_BinaryExpression evaluateBinaryExpression_diverges)
  next
    case (Some lr)
    note left = this
    show ?thesis
    proof (cases "evaluate env r")
      case None
      then show ?thesis
        using supported
        by (simp add: evaluate_BinaryExpression evaluateBinaryExpression_diverges)
    next
      case (Some rr)
      show ?thesis
        using supported evaluateBinaryExpression_returns [OF left Some, of opr] left Some
        by (cases lr; cases rr) (auto simp: evaluate_BinaryExpression split: jsval.split)
    qed
  qed
qed

lemma binary_non_number:
  assumes "evaluate env l = Some lr" and "evaluate env r = Some rr"
    and "(\<forall>a. lr \<noteq> Ok (VNum a)) \<or> (\<forall>b. rr \<noteq> Ok (VNum b))"
  shows "\<exists>e. evaluate env (BinaryExpression l opr r) = Some (Err e)"
proof (cases "opr \<in> set BINARY_OPERATORS")
  case False
  then show ?thesis by (simp add: evaluate_BinaryExpression)
next
  case True
  then show ?thesis
    using assms(3) evaluateBinaryExpression_returns [OF assms(1,2), of opr]
    by (cases lr; cases rr) (auto simp: evaluate_BinaryExpression split: jsval.split)
qed

lemma evaluate_static_num [simp]:
  "evaluate env (NumericLiteral x) = Some (Ok (VNum x))"
  by (simp add: evaluate_literal isLiteralNode_def isLiteralKind_def evaluateLiteral_def)

lemma evaluate_static_str [simp]:
  "evaluate env (StringLiteral s) = Some (Ok (VStr s))"
  by (simp add: evaluate_literal isLiteralNode_def isLiteralKind_def evaluateLiteral_def)

lemma evaluate_True [simp]: "evaluate env TrueKeyword = Some (Ok (VBool True))"
  by (simp add: evaluate_literal isLiteralNode_def isLiteralKind_def evaluateLiteral_def)

lemma evaluate_False [simp]: "evaluate env FalseKeyword = Some (Ok (VBool False))"
  by (simp add: evaluate_literal isLiteralNode_def isLiteralKind_def evaluateLiteral_def)

lemma evaluate_CallExpression [simp]:
  "evaluate env (CallExpression callee args) = Some (Err CannotEvaluateNode)"
  by (simp add: evaluate_other isLiteralNode_def isLiteralKind_def isWrappedNode_def)




section \<open>Unfolding the definitions on a program\<close>

lemmas option_type_defs = OPTION_TYPE_BOOLEAN_def OPTION_TYPE_STRING_def OPTION_TYPE_NUMBER_def
  OPTION_TYPE_BIGINT_def OPTION_TYPE_SELECT_def OPTION_TYPE_SLIDER_def
  OPTION_TYPE_COMPONENT_def OPTION_TYPE_CUSTOM_def

lemmas object_defs = getProperty_def member_name_def propname_text_def
  getPropertyAssignment_def getPropertyInitializer_def iteratePropertyAssignments_def
  extractStringLiteralValue_def getDefaultPropertyInitializer_def hiddenMarker_def
  OPTIONS_PROPERTY_def VALUE_PROPERTY_def LABEL_PROPERTY_def TYPE_PROPERTY_def
  DEFAULT_PROPERTY_def COMPONENT_PROPERTY_def NAME_PROPERTY_def DESCRIPTION_PROPERTY_def

lemmas options_defs = extractSelectOptions_def extractOptionsFromObjectArray_def
  extractValueAndLabel_def addValueAndLabel_def createSelectOptionsResult_def emptyOptions_def
  extractFromSpreadElement_def isOk_def

lemmas default_defs = resolveDefaultValue_def resolveIdentifierArrayDefault_def
  hasStringArrayDefault_def checkStringArrayInit_def isStringArray_def getIdentifierInit_def
  extractSelectDefault_def getArrowFunctionBody_def isDefined_def okValue_def
  identifierOfAttrs_def attrsOfIdentifier_def hasObjectArrayDefault_def
  isArrayExprWithObjects_def isCustomType_def isCustomTypeInNode_def
  checkPropertyAccessCustom_def includes_nullOr_def resolveAttrsDefault_def
  isBareComponentSetting_def symbolDeclaration_def declInitializer_def

lemmas typing_defs = tsTypeToNixType_def resolveOptionTypeNameFromNode_def
  buildEnumValuesFromOptions_def isBooleanEnumValues_def BOOLEAN_ENUM_LENGTH_def
  nixTypeForComponentOrCustom_def inferNixTypeFromRuntimeDefault_def isPrimitive_def
  isString_def isNumber_def isBoolean_def option_type_defs

lemmas settings_defs = extractSettingsFromObject_def extractSettingsFromPropertyIterable_def
  extractSettingsFromCall_def keepProperty_def isSettingsGroup_def leafSetting_def
  extractProperties_def buildPluginSetting_def

lemmas select_defs = selectType_def option_a_def option_b_marked_def option_c_marked_def
  carriesMarker_def

section \<open>Claims on the evaluator\<close>

text \<open>
  Claim C3. A binary expression evaluates to \<open>Ok\<close> exactly when its operator is one of
  \<^verbatim>\<open>| & ^ << >> >>> + - * / %\<close> and both operands evaluate to numbers, and the value is
  then the operator applied to them. When both operands return and one of them is an
  error or no number, the result is an error; an operator outside the set gives an
  error without the operands being evaluated.
\<close>

theorem binary_expression_outcome:
  "(evaluate env (BinaryExpression l opr r) = Some (Ok v) \<longleftrightarrow>
      opr \<in> {BarToken, AmpersandToken, CaretToken, LessThanLessThanToken,
              GreaterThanGreaterThanToken, GreaterThanGreaterThanGreaterThanToken,
              PlusToken, MinusToken, AsteriskToken, SlashToken, PercentToken}
      \<and> (\<exists>a b. evaluate env l = Some (Ok (VNum a)) \<and> evaluate env r = Some (Ok (VNum b))
                 \<and> v = VNum (num_op env opr a b)))
   \<and> (evaluate env l = Some lr \<and> evaluate env r = Some rr
        \<and> ((\<forall>a. lr \<noteq> Ok (VNum a)) \<or> (\<forall>b. rr \<noteq> Ok (VNum b)))
      \<longrightarrow> (\<exists>e. evaluate env (BinaryExpression l opr r) = Some (Err e)))
   \<and> (opr \<notin> set BINARY_OPERATORS
      \<longrightarrow> evaluate env (BinaryExpression l opr r) = Some (Err CannotEvaluateNode))"
  using binary_ok_iff [of env l opr r v] binary_non_number [of env l lr r rr opr]
  by (simp add: evaluate_BinaryExpression set_BINARY_OPERATORS [symmetric])

theorem binary_expression_outcome_witness:
  "evaluate static_env (BinaryExpression (NumericLiteral (Finite 1)) PlusToken (NumericLiteral (Finite 2)))
     = Some (Ok (VNum (Finite 3)))
   \<and> evaluate static_env (NumericLiteral (Finite 1)) = Some (Ok (VNum (Finite 1)))
   \<and> evaluate static_env (StringLiteral ''a'') = Some (Ok (VStr ''a''))
   \<and> (\<exists>e. evaluate static_env
             (BinaryExpression (NumericLiteral (Finite 1)) PlusToken (StringLiteral ''a''))
           = Some (Err e))
   \<and> EqualsEqualsEqualsToken \<notin> set BINARY_OPERATORS
   \<and> evaluate static_env
        (BinaryExpression (NumericLiteral (Finite 1)) EqualsEqualsEqualsToken
           (NumericLiteral (Finite 2)))
      = Some (Err CannotEvaluateNode)"
  using binary_expression_outcome [of static_env "NumericLiteral (Finite 1)" PlusToken
      "NumericLiteral (Finite 2)" "VNum (Finite 3)" "Ok (VNum (Finite 1))" "Ok (VNum (Finite 2))"]
    binary_expression_outcome [of static_env "NumericLiteral (Finite 1)" PlusToken
      "StringLiteral ''a''" "VNum (Finite 3)" "Ok (VNum (Finite 1))" "Ok (VStr ''a'')"]
    binary_expression_outcome [of static_env "NumericLiteral (Finite 1)" EqualsEqualsEqualsToken
      "NumericLiteral (Finite 2)" "VNum (Finite 3)" "Ok (VNum (Finite 1))" "Ok (VNum (Finite 2))"]
  by (simp add: static_env_def exact_arith_def BINARY_OPERATORS_def)

text \<open>
  Claim C2. The claim says that a wrapped expression evaluates as the expression inside.
  It does for a literal (\<open>evaluate_literal\<close>: \<open>isLiteralNode\<close> unwraps); for anything else
  \<^verbatim>\<open>evaluate\<close> asks \<^verbatim>\<open>resolveIdentifierWithFallback\<close> for the unwrapped node, which answers
  undefined on a node that is no identifier (\<open>evaluate_wrapped\<close>). With \<^verbatim>\<open>const FOO = 1\<close>,
  \<^verbatim>\<open>FOO\<close> evaluates to 1 and \<^verbatim>\<open>(FOO)\<close> and \<^verbatim>\<open>FOO as number\<close> to the error.
\<close>

theorem wrapped_identifier_not_unwrapped:
  "evaluate foo_env (Identifier ''FOO'') = Some (Ok (VNum (Finite 1)))
   \<and> evaluate foo_env (ParenthesizedExpression (Identifier ''FOO'')) = Some (Err CannotUnwrapNode)
   \<and> evaluate foo_env (AsExpression (Identifier ''FOO'') ''number'') = Some (Err CannotUnwrapNode)"
  by (simp add: evaluate_Identifier evaluate_wrapped isLiteralNode_def isLiteralKind_def
        isWrappedNode_def resolveIdentifierWithFallback_def resolveIdentifier_def
        symbolDeclaration_def foo_env_def static_env_def)

section \<open>Claims on the type of a setting\<close>

lemma resolve_numberType:
  "resolveOptionTypeNameFromNode static_env numberType = Some (Some OPTION_TYPE_NUMBER)"
  by (simp add: resolveOptionTypeNameFromNode_def numberType_def symbolDeclaration_def
        static_env_def OPTION_TYPE_NUMBER_def)

text \<open>
  Claim C6, as stated: a setting annotated \<^verbatim>\<open>NUMBER\<close> is an integer unless its literal
  default is a number that is not integral. It fails on a setting with no default, which
  is a float: the \<^verbatim>\<open>otherwise\<close> branch of the match on the default.
\<close>

theorem number_without_default_is_float:
  "resolveOptionTypeNameFromNode static_env numberType = Some (Some OPTION_TYPE_NUMBER)
   \<and> buildEnumValuesFromOptions static_env VUndefined = []
   \<and> map_option nixType
        (tsTypeToNixType static_env
           \<lparr>rs_type = TypeNode numberType, rs_default = VUndefined, rs_options = VUndefined\<rparr>)
      = Some NIX_TYPE_FLOAT
   \<and> NIX_TYPE_FLOAT \<noteq> NIX_TYPE_INT"
  by (simp add: resolve_numberType tsTypeToNixType_def option_type_defs
        buildEnumValuesFromOptions_def)

text \<open>
  Claim C6, amended. A setting annotated \<^verbatim>\<open>NUMBER\<close> is an integer when its literal default
  is an integral number and a float in every other case (a number that is not integral,
  no default, a default that is no number); it carries no enum values. With default 3
  it is an integer, with 3.5 a float.
\<close>

theorem number_annotation_type:
  "resolveOptionTypeNameFromNode env ty = Some (Some OPTION_TYPE_NUMBER) \<Longrightarrow>
   tsTypeToNixType env \<lparr>rs_type = TypeNode ty, rs_default = d, rs_options = opts\<rparr> =
     Some \<lparr>nixType = (if (\<exists>x. d = VNum x \<and> number_isInteger x) then NIX_TYPE_INT
                      else NIX_TYPE_FLOAT),
           enumValues = None\<rparr>"
  by (cases d) (auto simp: tsTypeToNixType_def option_type_defs)

theorem number_annotation_type_witness:
  "resolveOptionTypeNameFromNode static_env numberType = Some (Some OPTION_TYPE_NUMBER)
   \<and> tsTypeToNixType static_env
        \<lparr>rs_type = TypeNode numberType, rs_default = VNum (Finite 3), rs_options = VUndefined\<rparr>
      = Some \<lparr>nixType = NIX_TYPE_INT, enumValues = None\<rparr>
   \<and> tsTypeToNixType static_env
        \<lparr>rs_type = TypeNode numberType, rs_default = VNum (Finite 3.5),
         rs_options = VUndefined\<rparr>
      = Some \<lparr>nixType = NIX_TYPE_FLOAT, enumValues = None\<rparr>"
  using number_annotation_type [OF resolve_numberType, of "VNum (Finite 3)" VUndefined]
    number_annotation_type [OF resolve_numberType, of "VNum (Finite 3.5)" VUndefined]
  by (simp add: resolve_numberType number_isInteger_def)

lemma isBooleanEnumValues_two:
  "a \<noteq> b \<Longrightarrow> isBooleanEnumValues [VBool a, VBool b]"
  by (simp add: isBooleanEnumValues_def BOOLEAN_ENUM_LENGTH_def isBoolean_def)

lemma buildEnumValues_booleans:
  "buildEnumValuesFromOptions env (VArr [VBool a, VBool b]) = [VBool a, VBool b]"
  by (simp add: buildEnumValuesFromOptions_def isPrimitive_def isBoolean_def)

lemma buildEnumValues_undefined:
  "buildEnumValuesFromOptions env VUndefined = []"
  by (simp add: buildEnumValuesFromOptions_def)

lemma tsTypeToNixType_boolean_options:
  assumes "a \<noteq> b"
    and "rs_options rawSetting = VArr [VBool a, VBool b] \<or> rs_options rawSetting = VUndefined"
    and "tsTypeToNixType env rawSetting = Some base"
  shows "enumValues base = None \<or> enumValues base = Some []
         \<or> enumValues base = Some [VBool a, VBool b]"
proof (cases "rs_type rawSetting")
  case (TypeValue ty)
  then show ?thesis
    using assms isBooleanEnumValues_two [OF assms(1)]
    by (auto simp: tsTypeToNixType_def buildEnumValues_booleans buildEnumValues_undefined
        Let_def split: if_splits)
next
  case (TypeNode ty)
  then obtain resolved where r: "resolveOptionTypeNameFromNode env ty = Some resolved"
    using assms(3) by (auto simp: tsTypeToNixType_def Option.bind_eq_Some_conv)
  show ?thesis
  proof (cases resolved)
    case None
    then show ?thesis
      using assms TypeNode r
      by (auto simp: tsTypeToNixType_def buildEnumValues_booleans buildEnumValues_undefined
          Let_def split: option.splits)
  next
    case (Some name)
    then show ?thesis
      using assms TypeNode r isBooleanEnumValues_two [OF assms(1)]
      by (auto simp: tsTypeToNixType_def buildEnumValues_booleans buildEnumValues_undefined
          Let_def split: if_splits)
  qed
qed

lemma bool_select_options:
  "extractSelectOptions static_env bool_select =
     Some (Ok \<lparr>opt_values = [VBool True, VBool False], opt_labels = []\<rparr>)"
  by (simp add: bool_select_def options_defs object_defs)

text \<open>
  The classifier \<^verbatim>\<open>inferNixTypeAndEnumValues\<close>, which the settings extractor does not call:
  when the choices extracted from the setting are two distinct booleans, and the raw
  setting carries these choices or none, it answers the boolean type and no enum values,
  whatever the annotation and the default are.
\<close>

lemma classifier_collapses_boolean_choices:
  assumes "extractSelectOptions env valueObj =
             Some (Ok \<lparr>opt_values = [VBool a, VBool b], opt_labels = ls\<rparr>)"
    and "a \<noteq> b"
    and "rs_options rawSetting = VArr [VBool a, VBool b] \<or> rs_options rawSetting = VUndefined"
  shows "inferNixTypeAndEnumValues env valueObj typeNode dflt rawSetting =
           map_option
             (\<lambda>base. \<lparr>ti_finalNixType = NIX_TYPE_BOOL, ti_selectEnumValues = None,
                       ti_defaultValue = dflt\<rparr>)
             (tsTypeToNixType env rawSetting)"
proof (cases "tsTypeToNixType env rawSetting")
  case None
  then show ?thesis
    by (simp add: inferNixTypeAndEnumValues_def)
next
  case (Some base)
  from tsTypeToNixType_boolean_options [OF assms(2,3) Some]
  show ?thesis
  proof (elim disjE)
    assume "enumValues base = None"
    then show ?thesis
      using Some assms(1,2)
      by (simp add: inferNixTypeAndEnumValues_def
          BOOLEAN_ENUM_LENGTH_def isBoolean_def)
  next
    assume "enumValues base = Some []"
    then show ?thesis
      using Some assms(1,2)
      by (simp add: inferNixTypeAndEnumValues_def
          BOOLEAN_ENUM_LENGTH_def isBoolean_def)
  next
    assume "enumValues base = Some [VBool a, VBool b]"
    then show ?thesis
      using Some assms(1,2)
      by (simp add: inferNixTypeAndEnumValues_def
          BOOLEAN_ENUM_LENGTH_def isBoolean_def)
  qed
qed

text \<open>
  Claim C1. The claim says that a setting whose choices are the two booleans is emitted
  with the boolean type and no enum values, whatever its annotation. The settings
  extractor takes the type from \<^verbatim>\<open>tsTypeToNixType\<close>, which looks at the choices only under
  the annotation \<^verbatim>\<open>SELECT\<close> and when the type is no node: under \<^verbatim>\<open>OptionType.STRING\<close> the
  setting is emitted as a nullable string, and under an annotation that does not resolve
  it is emitted as a nullable string that keeps the enum values true and false. The
  classifier answers the boolean type for the same setting.
\<close>

theorem boolean_choices_kept_by_extractor:
  "extractSelectOptions static_env bool_select =
     Some (Ok \<lparr>opt_values = [VBool True, VBool False], opt_labels = []\<rparr>)
   \<and> extractSettingsFromObject static_env True
        [PropertyAssignment (IdentifierName ''flag'') (ObjectLiteralExpression bool_select)]
      = Some [(''flag'', SettingEntry
                 \<lparr>ps_name = ''flag'', ps_type = NIX_TYPE_NULL_OR_STR, ps_description = None,
                  ps_default = VNull, ps_enumValues = None,
                  ps_enumLabels = None, ps_example = None, ps_hidden = None,
                  ps_restartNeeded = False\<rparr>)]
   \<and> extractSelectOptions static_env bool_unresolved =
     Some (Ok \<lparr>opt_values = [VBool True, VBool False], opt_labels = []\<rparr>)
   \<and> extractSettingsFromObject static_env True
        [PropertyAssignment (IdentifierName ''flag'') (ObjectLiteralExpression bool_unresolved)]
      = Some [(''flag'', SettingEntry
                 \<lparr>ps_name = ''flag'', ps_type = NIX_TYPE_NULL_OR_STR, ps_description = None,
                  ps_default = VNull, ps_enumValues = Some [VBool True, VBool False],
                  ps_enumLabels = None, ps_example = None, ps_hidden = None,
                  ps_restartNeeded = False\<rparr>)]
   \<and> inferNixTypeAndEnumValues static_env bool_select (Some stringType) VUndefined
        \<lparr>rs_type = TypeNode stringType, rs_default = VUndefined,
         rs_options = VArr [VBool True, VBool False]\<rparr>
      = Some \<lparr>ti_finalNixType = NIX_TYPE_BOOL, ti_selectEnumValues = None,
              ti_defaultValue = VUndefined\<rparr>"
proof -
  have "inferNixTypeAndEnumValues static_env bool_select (Some stringType) VUndefined
        \<lparr>rs_type = TypeNode stringType, rs_default = VUndefined,
         rs_options = VArr [VBool True, VBool False]\<rparr>
      = Some \<lparr>ti_finalNixType = NIX_TYPE_BOOL, ti_selectEnumValues = None,
              ti_defaultValue = VUndefined\<rparr>"
    using classifier_collapses_boolean_choices [OF bool_select_options, of
        "\<lparr>rs_type = TypeNode stringType, rs_default = VUndefined,
          rs_options = VArr [VBool True, VBool False]\<rparr>" "Some stringType" VUndefined]
    by (simp add: typing_defs stringType_def symbolDeclaration_def static_env_def)
  then show ?thesis
    by (simp add: settings_defs object_defs options_defs typing_defs default_defs
          bool_select_def bool_unresolved_def stringType_def inferTypeFromTypeScriptType_def
          static_env_def getText_def str_includes_def Let_def)
qed

section \<open>Claims on the default of a setting\<close>

text \<open>
  Claim C5. The claim says that a default written as a literal array of strings is
  emitted as the list-of-strings type with an empty list. \<^verbatim>\<open>resolveDefaultValue\<close> does so
  only when no literal default was extracted, and \<^verbatim>\<open>extractLiteralValue\<close> extracts a literal
  array as the array of its values: the setting keeps the type of its annotation and the
  declared values as its default, although \<^verbatim>\<open>hasStringArrayDefault\<close> holds of it. The same
  array behind an identifier is emitted as the claim says.
\<close>

theorem literal_string_array_default_emitted:
  "hasStringArrayDefault tags_env string_array_setting
   \<and> extractSettingsFromObject tags_env True
        [PropertyAssignment (IdentifierName ''tags'') (ObjectLiteralExpression string_array_setting)]
      = Some [(''tags'', SettingEntry
                 \<lparr>ps_name = ''tags'', ps_type = NIX_TYPE_STR, ps_description = None,
                  ps_default = VArr [VStr ''a'', VStr ''b''], ps_enumValues = None,
                  ps_enumLabels = None, ps_example = None, ps_hidden = None,
                  ps_restartNeeded = False\<rparr>)]
   \<and> extractSettingsFromObject tags_env True
        [PropertyAssignment (IdentifierName ''tags'') (ObjectLiteralExpression string_array_by_name)]
      = Some [(''tags'', SettingEntry
                 \<lparr>ps_name = ''tags'', ps_type = NIX_TYPE_LIST_OF_STR, ps_description = None,
                  ps_default = VArr [], ps_enumValues = None,
                  ps_enumLabels = None, ps_example = None, ps_hidden = None,
                  ps_restartNeeded = False\<rparr>)]"
  by (simp add: settings_defs object_defs options_defs typing_defs default_defs
        string_array_setting_def string_array_by_name_def stringType_def tags_env_def
        static_env_def getText_def str_includes_def Let_def)

text \<open>
  Claim C7. The claim says that an attribute-set setting whose default is a getter is
  emitted with the nullable string type and the default null. \<^verbatim>\<open>resolveAttrsDefault\<close>
  answers null for the getter, and \<^verbatim>\<open>resolveDefaultValue\<close> leaves the type as it is: the
  setting is emitted with the attribute-set type and the default null.
  \<^verbatim>\<open>classifyComponentOrCustom\<close>, which the extractor does not call, changes the type.
\<close>

theorem getter_default_stays_attrs:
  "map_option nixType
     (tsTypeToNixType static_env
        \<lparr>rs_type = TypeNode customType, rs_default = VUndefined, rs_options = VArr []\<rparr>)
     = Some NIX_TYPE_ATTRS
   \<and> resolveDefaultValue static_env getter_setting NIX_TYPE_ATTRS VUndefined None
      = Some \<lparr>rd_finalNixType = NIX_TYPE_ATTRS, rd_defaultValue = VNull\<rparr>
   \<and> extractSettingsFromObject static_env True
        [PropertyAssignment (IdentifierName ''panel'') (ObjectLiteralExpression getter_setting)]
      = Some [(''panel'', SettingEntry
                 \<lparr>ps_name = ''panel'', ps_type = NIX_TYPE_ATTRS, ps_description = None,
                  ps_default = VNull, ps_enumValues = None,
                  ps_enumLabels = None, ps_example = None, ps_hidden = None,
                  ps_restartNeeded = False\<rparr>)]
   \<and> classifyComponentOrCustom static_env getter_setting NIX_TYPE_ATTRS VUndefined
      = \<lparr>c_nixType = NIX_TYPE_NULL_OR_STR, c_defaultValue = VNull\<rparr>"
  by (simp add: settings_defs object_defs options_defs typing_defs default_defs
        getter_setting_def customType_def classifyComponentOrCustom_def
        static_env_def getText_def str_includes_def Let_def)














text \<open>
  \<^verbatim>\<open>extractSelectOptions\<close> unwraps the initializer of the options and \<^verbatim>\<open>extractSelectDefault\<close>
  does not: behind \<^verbatim>\<open>as const\<close> the options are extracted and the marker is not seen.
\<close>

lemma marker_behind_as_const:
  "extractSettingsFromObject static_env True
     [PropertyAssignment (IdentifierName ''mode'') (ObjectLiteralExpression select_as_const)]
   = Some [(''mode'', SettingEntry
              \<lparr>ps_name = ''mode'', ps_type = NIX_ENUM_TYPE, ps_description = None,
               ps_default = VStr ''a'', ps_enumValues = Some [VStr ''a'', VStr ''b''],
               ps_enumLabels = None, ps_example = None, ps_hidden = None,
               ps_restartNeeded = False\<rparr>)]"
  by (simp add: settings_defs object_defs options_defs typing_defs default_defs
        select_as_const_def select_defs static_env_def getText_def str_includes_def Let_def)

section \<open>Claims on the options of a select setting\<close>

lemma extractSelectOptions_by_initializer:
  "extractSelectOptions env obj =
     (case optionsInitializer obj of
        None \<Rightarrow> Some emptyOptions
      | Some (ArrayLiteralExpression elements) \<Rightarrow> extractOptionsFromObjectArray env elements
      | Some (CallExpression callee args) \<Rightarrow>
          Option.bind (extractFromCallExpression env (CallExpression callee args)) (\<lambda>r.
            Some (if isOk r then r else emptyOptions))
      | Some _ \<Rightarrow> Some emptyOptions)"
  by (simp add: extractSelectOptions_def optionsInitializer_def
      split: option.split member.split node.split)

lemma yieldedValues_object:
  "yieldedValues env (ObjectLiteralExpression obj) =
     map_option (\<lambda>r. case r of Ok (v, _) \<Rightarrow> [v] | Err _ \<Rightarrow> []) (extractValueAndLabel env obj)"
  by (simp add: yieldedValues_def)

lemma yieldedValues_spread:
  "yieldedValues env (SpreadElement expr) =
     map_option (\<lambda>r. case r of Ok (vs, _) \<Rightarrow> vs | Err _ \<Rightarrow> [])
       (extractFromSpreadElement env expr)"
  by (simp add: yieldedValues_def)

lemma objectArrayElements_step:
  "map_option fst (objectArrayElements env (element # elements) (vals, ls)) =
     (case yieldedValues env element of
        None \<Rightarrow> None
      | Some vs \<Rightarrow>
          (case element of
             ObjectLiteralExpression obj \<Rightarrow>
               map_option fst
                 (objectArrayElements env elements
                    (vals @ vs,
                     snd (addValueAndLabel env (vals, ls) (the (extractValueAndLabel env obj)))))
           | SpreadElement expr \<Rightarrow>
               map_option fst
                 (objectArrayElements env elements
                    (vals @ vs,
                     (case the (extractFromSpreadElement env expr) of
                        Ok (_, ls') \<Rightarrow> rec_assign ls ls' | Err _ \<Rightarrow> ls)))
           | _ \<Rightarrow> map_option fst (objectArrayElements env elements (vals @ vs, ls))))"
proof (cases element)
  case (ObjectLiteralExpression obj)
  then show ?thesis
    by (cases "extractValueAndLabel env obj")
       (auto simp: yieldedValues_object addValueAndLabel_def split: result.splits)
next
  case (SpreadElement expr)
  then show ?thesis
    by (cases "extractFromSpreadElement env expr")
       (auto simp: yieldedValues_spread split: result.splits)
qed (simp_all add: yieldedValues_def)

lemma objectArrayElements_values:
  "map_option fst (objectArrayElements env elements (vals, ls)) =
     map_option (\<lambda>vss. vals @ concat vss) (those (map (yieldedValues env) elements))"
proof (induction elements arbitrary: vals ls)
  case Nil
  then show ?case by simp
next
  case (Cons element elements)
  show ?case
  proof (cases "yieldedValues env element")
    case None
    then show ?thesis
      by (simp add: objectArrayElements_step del: objectArrayElements.simps)
  next
    case (Some vs)
    then show ?thesis
      by (cases "those (map (yieldedValues env) elements)"; cases element)
         (simp_all add: objectArrayElements_step Cons.IH del: objectArrayElements.simps)
  qed
qed

lemma extractOptionsFromObjectArray_values:
  "map_option resultValues (extractOptionsFromObjectArray env elements) =
     map_option (\<lambda>vss. if concat vss = [] \<and> elements \<noteq> [] then Err CannotEvaluate
                        else Ok (concat vss))
       (those (map (yieldedValues env) elements))"
proof (cases "objectArrayElements env elements ([], [])")
  case None
  then show ?thesis
    using objectArrayElements_values [of env elements "[]" "[]"]
    by (simp add: extractOptionsFromObjectArray_def)
next
  case (Some acc)
  then obtain vss where vss: "those (map (yieldedValues env) elements) = Some vss"
    and acc: "fst acc = concat vss"
    using objectArrayElements_values [of env elements "[]" "[]"]
    by (cases "those (map (yieldedValues env) elements)") auto
  show ?thesis
    using Some acc
    by (cases acc)
       (simp add: extractOptionsFromObjectArray_def resultValues_def
          createSelectOptionsResult_def vss del: concat_eq_Nil_conv)
qed

text \<open>
  Claim C9, as stated: options that match no idiom give a successful result with no
  values, never an error. It fails on a literal array none of whose elements yields a
  value, such as an array of calls or an object without a value: \<^verbatim>\<open>extractOptionsFromObjectArray\<close>
  answers the error \<^verbatim>\<open>cannotEvaluate\<close> for an array that is not empty and gives no value, and
  \<^verbatim>\<open>extractSelectOptions\<close> returns it.
\<close>

theorem unrecognised_array_is_error:
  "extractSelectOptions static_env call_elements_options = Some (Err CannotEvaluate)
   \<and> extractSelectOptions static_env label_only_options = Some (Err CannotEvaluate)
   \<and> \<not> isOk (Err CannotEvaluate :: SelectOptionsResult)"
  by (simp add: object_defs options_defs call_elements_options_def label_only_options_def)

text \<open>
  Claim C9, amended. When the setting has no options property with an initializer, when
  the initializer is neither a literal array nor a call, and when it is a call for which
  no idiom of calls gives a result, the extraction succeeds with no values and no labels;
  on a call it never returns an error. When the initializer is a literal array none of
  whose elements yields a value, the extraction succeeds with no values if the array is
  empty and answers the error \<^verbatim>\<open>cannotEvaluate\<close> otherwise.
\<close>

theorem unmatched_options_outcome:
  "(optionsInitializer obj = None \<longrightarrow>
      extractSelectOptions env obj = Some (Ok \<lparr>opt_values = [], opt_labels = []\<rparr>))
   \<and> (optionsInitializer obj = Some n \<and> \<not> isArrayLiteral n \<and> \<not> isCallExpression n \<longrightarrow>
      extractSelectOptions env obj = Some (Ok \<lparr>opt_values = [], opt_labels = []\<rparr>))
   \<and> (optionsInitializer obj = Some n \<and> isCallExpression n
        \<and> extractFromCallExpression env n = Some (Err e) \<longrightarrow>
      extractSelectOptions env obj = Some (Ok \<lparr>opt_values = [], opt_labels = []\<rparr>))
   \<and> (optionsInitializer obj = Some n \<and> isCallExpression n
        \<and> extractSelectOptions env obj = Some r \<longrightarrow> isOk r)
   \<and> (optionsInitializer obj = Some (ArrayLiteralExpression elements)
        \<and> those (map (yieldedValues env) elements) = Some vss \<and> concat vss = [] \<longrightarrow>
      map_option resultValues (extractSelectOptions env obj)
        = Some (if elements = [] then Ok [] else Err CannotEvaluate))"
proof (intro conjI impI)
  assume "optionsInitializer obj = Some (ArrayLiteralExpression elements)
        \<and> those (map (yieldedValues env) elements) = Some vss \<and> concat vss = []"
  then show "map_option resultValues (extractSelectOptions env obj)
        = Some (if elements = [] then Ok [] else Err CannotEvaluate)"
    using extractOptionsFromObjectArray_values [of env elements]
    by (cases "elements = []")
       (auto simp: extractSelectOptions_by_initializer simp del: concat_eq_Nil_conv)
qed (cases n;
     auto simp: extractSelectOptions_by_initializer emptyOptions_def isArrayLiteral_def
       isCallExpression_def isOk_def Option.bind_eq_Some_conv split: if_splits)+

theorem unmatched_options_outcome_witness:
  "optionsInitializer [] = None
   \<and> extractSelectOptions static_env [] = Some (Ok \<lparr>opt_values = [], opt_labels = []\<rparr>)
   \<and> optionsInitializer options_by_name = Some (Identifier ''choices'')
   \<and> extractSelectOptions static_env options_by_name
      = Some (Ok \<lparr>opt_values = [], opt_labels = []\<rparr>)
   \<and> optionsInitializer options_by_call = Some (CallExpression (Identifier ''choices'') [])
   \<and> extractFromCallExpression static_env (CallExpression (Identifier ''choices'') [])
      = Some (Err UnsupportedPattern)
   \<and> extractSelectOptions static_env options_by_call
      = Some (Ok \<lparr>opt_values = [], opt_labels = []\<rparr>)
   \<and> isOk (Ok \<lparr>opt_values = [], opt_labels = []\<rparr> :: SelectOptionsResult)
   \<and> those (map (yieldedValues static_env)
         [ObjectLiteralExpression
            [PropertyAssignment (IdentifierName ''label'') (StringLiteral ''x'')]]) = Some [[]]
   \<and> map_option resultValues (extractSelectOptions static_env label_only_options)
      = Some (Err CannotEvaluate)
   \<and> map_option resultValues (extractSelectOptions static_env empty_options) = Some (Ok [])"
  using unmatched_options_outcome [where obj = "[]" and env = static_env]
    unmatched_options_outcome [where obj = options_by_name and env = static_env
      and n = "Identifier ''choices''"]
    unmatched_options_outcome [where obj = options_by_call and env = static_env
      and n = "CallExpression (Identifier ''choices'') []" and e = UnsupportedPattern
      and r = "Ok \<lparr>opt_values = [], opt_labels = []\<rparr>"]
    unmatched_options_outcome [where obj = label_only_options and env = static_env
      and elements = "[ObjectLiteralExpression
            [PropertyAssignment (IdentifierName ''label'') (StringLiteral ''x'')]]"
      and vss = "[[]]"]
    unmatched_options_outcome [where obj = empty_options and env = static_env
      and elements = "[]" and vss = "[]"]
  by (simp add: optionsInitializer_def options_by_name_def options_by_call_def object_defs
        isArrayLiteral_def isCallExpression_def extractFromCallExpression_def
        isArrayFromCallee_def isOk_def label_only_options_def empty_options_def
        yieldedValues_def extractValueAndLabel_def)



section \<open>Claims on the settings tree\<close>

lemma settingsReduce_object:
  "settingsReduce env skip ((pn, ObjectLiteralExpression valueObj) # rest) acc =
     Option.bind (entryOf env skip (pn, ObjectLiteralExpression valueObj))
       (\<lambda>r. settingsReduce env skip rest
              (case r of None \<Rightarrow> acc | Some e \<Rightarrow> rec_set (propname_text pn) e acc))"
proof (cases "isSettingsGroup (iteratePropertyAssignments valueObj)")
  case True
  then show ?thesis
    by (cases "settingsReduce env skip
                 (filter (keepProperty skip) (iteratePropertyAssignments valueObj)) []")
       (simp_all add: entryOf_def extractSettingsFromPropertyIterable_def Let_def)
next
  case False
  then show ?thesis
    by (cases "leafSetting env skip (propname_text pn) valueObj")
       (auto simp: entryOf_def Let_def split: option.split)
qed

lemma settingsReduce_other:
  "(\<forall>valueObj. init \<noteq> ObjectLiteralExpression valueObj)
     \<Longrightarrow> settingsReduce env skip ((pn, init) # rest) acc = None"
  by (cases init) simp_all

lemma entryOf_other:
  "(\<forall>valueObj. init \<noteq> ObjectLiteralExpression valueObj) \<Longrightarrow> entryOf env skip (pn, init) = None"
  by (cases init) (simp_all add: entryOf_def)

lemma settingsReduce_returns:
  "settingsReduce env skip ps acc \<noteq> None \<longleftrightarrow> (\<forall>pa\<in>set ps. entryOf env skip pa \<noteq> None)"
proof (induction ps arbitrary: acc)
  case Nil
  show ?case by simp
next
  case (Cons pa ps)
  obtain pn init where pa: "pa = (pn, init)"
    by (cases pa)
  show ?case
  proof (cases "\<exists>valueObj. init = ObjectLiteralExpression valueObj")
    case True
    then obtain valueObj where init: "init = ObjectLiteralExpression valueObj"
      by blast
    show ?thesis
      unfolding pa init settingsReduce_object
      by (cases "entryOf env skip (pn, ObjectLiteralExpression valueObj)")
         (simp_all add: Cons.IH del: not_None_eq)
  next
    case False
    then show ?thesis
      by (cases init) (simp_all add: pa entryOf_def)
  qed
qed

lemma keys_rec_set: "fst ` set (rec_set k v kvs) = insert k (fst ` set kvs)"
proof (induction kvs)
  case Nil
  show ?case by simp
next
  case (Cons kv kvs)
  then show ?case
    by (cases kv) (simp add: insert_commute)
qed

lemma keepProperty_iff:
  "keepProperty skip pa \<longleftrightarrow>
     (\<exists>pn valueObj. pa = (pn, ObjectLiteralExpression valueObj) \<and> propname_text pn \<noteq> []
        \<and> (skip \<or> \<not> hiddenMarker valueObj))"
  by (cases pa, cases "snd pa") (simp_all add: keepProperty_def)

lemma p_hidden_extractProperties:
  "extractProperties env valueObj = Some props \<Longrightarrow> p_hidden props = hiddenMarker valueObj"
  by (auto simp: extractProperties_def)

lemma leafSetting_kept:
  assumes "leafSetting env skip key valueObj = Some r" and "skip \<or> \<not> hiddenMarker valueObj"
  shows "r \<noteq> None"
proof (cases "extractProperties env valueObj")
  case None
  with assms(1) show ?thesis
    by (simp add: leafSetting_def)
next
  case (Some props)
  with assms(2) have "skip \<or> \<not> p_hidden props"
    by (simp add: p_hidden_extractProperties)
  with assms(1) Some show ?thesis
    by (auto simp: leafSetting_def Let_def Option.bind_eq_Some_conv)
qed

lemma entryOf_kept:
  assumes "entryOf env skip pa = Some r" and "keepProperty skip pa"
  shows "r \<noteq> None"
proof -
  obtain pn init where pa: "pa = (pn, init)"
    by (cases pa)
  from assms(2) obtain valueObj where init: "init = ObjectLiteralExpression valueObj"
    and kept: "skip \<or> \<not> hiddenMarker valueObj"
    by (cases init) (simp_all add: pa keepProperty_def)
  from assms(1) show ?thesis
    using leafSetting_kept [OF _ kept]
    by (auto simp: pa init entryOf_def split: if_splits)
qed

lemma settingsReduce_keys:
  assumes "settingsReduce env skip ps acc = Some tree" and "\<forall>pa\<in>set ps. keepProperty skip pa"
  shows "fst ` set tree = fst ` set acc \<union> (\<lambda>pa. propname_text (fst pa)) ` set ps"
  using assms
proof (induction ps arbitrary: acc)
  case Nil
  then show ?case by simp
next
  case (Cons pa ps)
  obtain pn init where pa: "pa = (pn, init)"
    by (cases pa)
  from Cons.prems(2) obtain valueObj where init: "init = ObjectLiteralExpression valueObj"
    by (cases init) (simp_all add: pa keepProperty_def)
  from Cons.prems(1) have "Option.bind (entryOf env skip pa)
      (\<lambda>r. settingsReduce env skip ps
             (case r of None \<Rightarrow> acc | Some e \<Rightarrow> rec_set (propname_text pn) e acc)) = Some tree"
    unfolding pa init settingsReduce_object .
  then obtain r where
    r: "entryOf env skip pa = Some r"
    and rest: "settingsReduce env skip ps
                 (case r of None \<Rightarrow> acc | Some e \<Rightarrow> rec_set (propname_text pn) e acc) = Some tree"
    by (auto simp: Option.bind_eq_Some_conv)
  from r Cons.prems(2) obtain e where e: "r = Some e"
    using entryOf_kept [of env skip pa r] by auto
  from Cons.IH [OF rest] Cons.prems(2) show ?case
    by (simp add: e pa keys_rec_set)
qed

lemma hidden_example_dropped:
  "extractSettingsFromPropertyIterable static_env False hidden_example
     = Some [(''shown'', SettingEntry shown_setting)]"
  by (simp add: settings_defs object_defs options_defs typing_defs default_defs
        hidden_example_def shown_setting_def stringType_def static_env_def getText_def
        str_includes_def Let_def)

lemma hidden_example_retained:
  "extractSettingsFromPropertyIterable static_env True hidden_example
     = Some [(''secret'', SettingEntry secret_setting), (''shown'', SettingEntry shown_setting)]"
  by (simp add: settings_defs object_defs options_defs typing_defs default_defs
        hidden_example_def shown_setting_def secret_setting_def stringType_def static_env_def
        getText_def str_includes_def Let_def)

text \<open>
  Claim C8. Without the flag that retains hidden settings, the extraction is that of the
  declaration without the properties whose object literal carries \<^verbatim>\<open>hidden: true\<close>. When
  the extraction returns, the names in the tree are those of the named properties with
  an object literal as value, without the hidden ones unless the flag is set: a hidden
  setting is absent without the flag and present with it. The extraction returns
  exactly when the entry of every property it keeps is computed.
\<close>

theorem hidden_settings_dropped_unless_retained:
  "extractSettingsFromPropertyIterable env False props
     = extractSettingsFromPropertyIterable env False (filter (\<lambda>pa. \<not> hiddenProperty pa) props)
   \<and> (extractSettingsFromPropertyIterable env retain props = Some tree
      \<longrightarrow> fst ` set tree =
            {propname_text pn | pn valueObj.
               (pn, ObjectLiteralExpression valueObj) \<in> set props \<and> propname_text pn \<noteq> []
               \<and> (retain \<or> \<not> hiddenMarker valueObj)})
   \<and> (extractSettingsFromPropertyIterable env retain props \<noteq> None
      \<longleftrightarrow> (\<forall>pa\<in>set props. keepProperty retain pa \<longrightarrow> entryOf env retain pa \<noteq> None))"
proof (intro conjI impI)
  have "(\<not> hiddenProperty pa \<and> keepProperty False pa) = keepProperty False pa" for pa
    by (cases pa, cases "snd pa") (auto simp: keepProperty_def hiddenProperty_def)
  then have "filter (keepProperty False) (filter (\<lambda>pa. \<not> hiddenProperty pa) props)
      = filter (keepProperty False) props"
    by simp
  then show "extractSettingsFromPropertyIterable env False props
     = extractSettingsFromPropertyIterable env False (filter (\<lambda>pa. \<not> hiddenProperty pa) props)"
    by (simp add: extractSettingsFromPropertyIterable_def)
next
  assume "extractSettingsFromPropertyIterable env retain props = Some tree"
  then have reduced: "settingsReduce env retain (filter (keepProperty retain) props) [] = Some tree"
    by (simp add: extractSettingsFromPropertyIterable_def)
  have kept: "\<forall>pa\<in>set (filter (keepProperty retain) props). keepProperty retain pa"
    by simp
  have "fst ` set tree
      = (\<lambda>pa. propname_text (fst pa)) ` set (filter (keepProperty retain) props)"
    using settingsReduce_keys [OF reduced kept] by simp
  also have "\<dots> = {propname_text pn | pn valueObj.
               (pn, ObjectLiteralExpression valueObj) \<in> set props \<and> propname_text pn \<noteq> []
               \<and> (retain \<or> \<not> hiddenMarker valueObj)}"
  proof (rule set_eqI)
    fix k
    have "k \<in> (\<lambda>pa. propname_text (fst pa)) ` set (filter (keepProperty retain) props)
        \<longleftrightarrow> (\<exists>pa. pa \<in> set props \<and> keepProperty retain pa \<and> k = propname_text (fst pa))"
      by (simp add: image_iff Bex_def conj_ac)
    also have "\<dots> \<longleftrightarrow> (\<exists>pn valueObj. (pn, ObjectLiteralExpression valueObj) \<in> set props
        \<and> propname_text pn \<noteq> [] \<and> (retain \<or> \<not> hiddenMarker valueObj) \<and> k = propname_text pn)"
      unfolding keepProperty_iff by fastforce
    finally show "k \<in> (\<lambda>pa. propname_text (fst pa)) ` set (filter (keepProperty retain) props)
        \<longleftrightarrow> k \<in> {propname_text pn | pn valueObj.
               (pn, ObjectLiteralExpression valueObj) \<in> set props \<and> propname_text pn \<noteq> []
               \<and> (retain \<or> \<not> hiddenMarker valueObj)}"
      by blast
  qed
  finally show "fst ` set tree =
            {propname_text pn | pn valueObj.
               (pn, ObjectLiteralExpression valueObj) \<in> set props \<and> propname_text pn \<noteq> []
               \<and> (retain \<or> \<not> hiddenMarker valueObj)}" .
next
  show "extractSettingsFromPropertyIterable env retain props \<noteq> None
      \<longleftrightarrow> (\<forall>pa\<in>set props. keepProperty retain pa \<longrightarrow> entryOf env retain pa \<noteq> None)"
    by (simp add: extractSettingsFromPropertyIterable_def settingsReduce_returns Ball_def
          del: not_None_eq split_paired_All) blast
qed

theorem hidden_settings_dropped_unless_retained_witness:
  "extractSettingsFromPropertyIterable static_env False hidden_example
     = Some [(''shown'', SettingEntry shown_setting)]
   \<and> extractSettingsFromPropertyIterable static_env False
        (filter (\<lambda>pa. \<not> hiddenProperty pa) hidden_example)
      = Some [(''shown'', SettingEntry shown_setting)]
   \<and> extractSettingsFromPropertyIterable static_env True hidden_example
      = Some [(''secret'', SettingEntry secret_setting), (''shown'', SettingEntry shown_setting)]
   \<and> fst ` set [(''secret'', SettingEntry secret_setting), (''shown'', SettingEntry shown_setting)]
      = {propname_text pn | pn valueObj.
           (pn, ObjectLiteralExpression valueObj) \<in> set hidden_example \<and> propname_text pn \<noteq> []
           \<and> (True \<or> \<not> hiddenMarker valueObj)}
   \<and> fst ` set [(''shown'', SettingEntry shown_setting)]
      = {propname_text pn | pn valueObj.
           (pn, ObjectLiteralExpression valueObj) \<in> set hidden_example \<and> propname_text pn \<noteq> []
           \<and> (False \<or> \<not> hiddenMarker valueObj)}
   \<and> list_all (\<lambda>pa. entryOf static_env True pa \<noteq> None)
        (filter (keepProperty True) hidden_example)"
proof -
  note retained = hidden_settings_dropped_unless_retained [where env = static_env
      and props = hidden_example and retain = True
      and tree = "[(''secret'', SettingEntry secret_setting), (''shown'', SettingEntry shown_setting)]"]
  note dropped = hidden_settings_dropped_unless_retained [where env = static_env
      and props = hidden_example and retain = False
      and tree = "[(''shown'', SettingEntry shown_setting)]"]
  from dropped have "extractSettingsFromPropertyIterable static_env False
        (filter (\<lambda>pa. \<not> hiddenProperty pa) hidden_example)
      = Some [(''shown'', SettingEntry shown_setting)]"
    by (simp only: hidden_example_dropped)
  moreover from retained have
    "fst ` set [(''secret'', SettingEntry secret_setting), (''shown'', SettingEntry shown_setting)]
      = {propname_text pn | pn valueObj.
           (pn, ObjectLiteralExpression valueObj) \<in> set hidden_example \<and> propname_text pn \<noteq> []
           \<and> (True \<or> \<not> hiddenMarker valueObj)}"
    by (simp only: hidden_example_retained simp_thms)
  moreover from dropped have "fst ` set [(''shown'', SettingEntry shown_setting)]
      = {propname_text pn | pn valueObj.
           (pn, ObjectLiteralExpression valueObj) \<in> set hidden_example \<and> propname_text pn \<noteq> []
           \<and> (False \<or> \<not> hiddenMarker valueObj)}"
    by (simp only: hidden_example_dropped simp_thms)
  moreover from retained have
    "\<forall>pa\<in>set hidden_example. keepProperty True pa \<longrightarrow> entryOf static_env True pa \<noteq> None"
    by (simp only: hidden_example_retained simp_thms option.distinct) (elim conjE)
  then have "list_all (\<lambda>pa. entryOf static_env True pa \<noteq> None)
      (filter (keepProperty True) hidden_example)"
    by (simp add: list_all_iff del: not_None_eq)
  ultimately show ?thesis
    by (simp only: hidden_example_dropped hidden_example_retained simp_thms)
qed

end
